theory Spec2Isabelle
  imports Main "HOL-Library.Word" "HOL-Library.Multiset" "HOL-Library.Product_Lexorder"
begin

section \<open>Go values used by the statement pipeline\<close>

subsection \<open>Strings\<close>

text \<open>
  A Go string is represented by the sequence of code points that ranging over it yields.
  Every library function the pipeline applies to strings (\<open>strings.TrimSpace\<close>,
  \<open>strings.TrimPrefix\<close>, \<open>strings.EqualFold\<close>, \<open>time.Parse\<close>, \<open>strconv.ParseInt\<close>)
  works on that sequence.
\<close>

type_synonym rune = nat
type_synonym gostring = "rune list"

definition str :: "string \<Rightarrow> gostring" where
  "str s = map of_char s"

text \<open>\<open>unicode.IsSpace\<close>: the Unicode White_Space property.\<close>

definition IsSpace :: "rune \<Rightarrow> bool" where
  "IsSpace r \<longleftrightarrow>
     (9 \<le> r \<and> r \<le> 13) \<or> r = 32 \<or> r = 133 \<or> r = 160 \<or> r = 5760 \<or>
     (8192 \<le> r \<and> r \<le> 8202) \<or> r = 8232 \<or> r = 8233 \<or> r = 8239 \<or> r = 8287 \<or> r = 12288"

text \<open>\<open>strings.TrimSpace\<close>: all leading and trailing white space removed.\<close>

definition TrimSpace :: "gostring \<Rightarrow> gostring" where
  "TrimSpace s = rev (dropWhile IsSpace (rev (dropWhile IsSpace s)))"

text \<open>\<open>strings.TrimPrefix\<close>.\<close>

definition TrimPrefix :: "gostring \<Rightarrow> gostring \<Rightarrow> gostring" where
  "TrimPrefix s p = (if take (length p) s = p then drop (length p) s else s)"

subsection \<open>Time\<close>

text \<open>
  A \<open>time.Time\<close> is an instant. It is represented by its civil date in UTC and the
  nanoseconds elapsed since midnight UTC; \<open>time.Parse\<close> with the layout \<open>2006/01/02\<close>
  yields midnight UTC. \<open>After\<close>, \<open>Before\<close> and \<open>Equal\<close> compare instants. \<open>Year\<close> and
  \<open>Month\<close> are the year and the month in UTC, the location of every time the decoder
  constructs; the location of a time is not represented.
\<close>

record Time =
  Year :: int
  Month :: nat
  Day :: nat
  Clock :: nat

definition After :: "Time \<Rightarrow> Time \<Rightarrow> bool" where
  "After t u \<longleftrightarrow>
     Year t > Year u \<or> (Year t = Year u \<and>
       (Month t > Month u \<or> (Month t = Month u \<and>
         (Day t > Day u \<or> (Day t = Day u \<and> Clock t > Clock u)))))"

definition Before :: "Time \<Rightarrow> Time \<Rightarrow> bool" where
  "Before t u \<longleftrightarrow> After u t"

definition Equal :: "Time \<Rightarrow> Time \<Rightarrow> bool" where
  "Equal t u \<longleftrightarrow> Year t = Year u \<and> Month t = Month u \<and> Day t = Day u \<and> Clock t = Clock u"

subsection \<open>Errors\<close>

text \<open>
  Formatted text is kept as the format string of the source together with its arguments;
  \<open>Errorf fmt args w\<close> is \<open>fmt.Errorf(fmt, args...)\<close> where \<open>w\<close> is the error passed for
  the verb \<open>%w\<close>, if there is one. \<open>TimeParseError\<close> is a \<open>*time.ParseError\<close> with its
  fields \<open>Layout\<close>, \<open>Value\<close>, \<open>LayoutElem\<close>, \<open>ValueElem\<close> and \<open>Message\<close>; \<open>NumError\<close> is a
  \<open>*strconv.NumError\<close> with its fields \<open>Num\<close> and \<open>Err\<close>.
\<close>

datatype fmt_arg = ArgInt int | ArgString gostring | ArgStrings "gostring list"

datatype message = Lit string | Sprintf string "fmt_arg list"

datatype ErrorType =
  ErrorTypeValidation | ErrorTypeNotFound | ErrorTypeParse | ErrorTypeIO | ErrorTypeInternal

datatype error =
    EOF
  | OtherError string
  | Canceled
  | DeadlineExceeded
  | ErrSyntax
  | ErrRange
  | NumError gostring error
  | TimeParseError gostring gostring gostring gostring message
  | Errorf string "fmt_arg list" "error option"
  | DomainError ErrorType message "(string \<times> fmt_arg) list" "error option"

text \<open>internal/domain/errors.go\<close>

definition NewValidationError :: "message \<Rightarrow> (string \<times> fmt_arg) list \<Rightarrow> error" where
  "NewValidationError message details = DomainError ErrorTypeValidation message details None"

definition NewParseError :: "message \<Rightarrow> error \<Rightarrow> error" where
  "NewParseError message cause = DomainError ErrorTypeParse message [] (Some cause)"

definition NewIOError :: "message \<Rightarrow> error \<Rightarrow> error" where
  "NewIOError message cause = DomainError ErrorTypeIO message [] (Some cause)"

fun IsParseError :: "error option \<Rightarrow> bool" where
  "IsParseError None = False"
| "IsParseError (Some (DomainError ty _ _ _)) = (ty = ErrorTypeParse)"
| "IsParseError (Some _) = False"

fun IsIOError :: "error option \<Rightarrow> bool" where
  "IsIOError None = False"
| "IsIOError (Some (DomainError ty _ _ _)) = (ty = ErrorTypeIO)"
| "IsIOError (Some _) = False"

subsection \<open>Slices\<close>

text \<open>
  A Go slice value is either \<open>nil\<close> or a slice with its elements; \<open>append\<close> to \<open>nil\<close>
  allocates.
\<close>

datatype 'a slice = NilSlice | Slice "'a list"

fun elems :: "'a slice \<Rightarrow> 'a list" where
  "elems NilSlice = []"
| "elems (Slice xs) = xs"

fun append_slice :: "'a slice \<Rightarrow> 'a \<Rightarrow> 'a slice" where
  "append_slice NilSlice x = Slice [x]"
| "append_slice (Slice xs) x = Slice (xs @ [x])"

fun map_elems :: "('a list \<Rightarrow> 'a list) \<Rightarrow> 'a slice \<Rightarrow> 'a slice" where
  "map_elems f NilSlice = NilSlice"
| "map_elems f (Slice xs) = Slice (f xs)"

section \<open>internal/domain/transaction.go\<close>

type_synonym int64 = "64 word"

record Transaction =
  Date :: Time
  Amount :: int64
  Content :: gostring

definition NewTransaction :: "Time \<Rightarrow> int64 \<Rightarrow> gostring \<Rightarrow> error + Transaction" where
  "NewTransaction date amount content =
     (if content = [] then Inl (Errorf ''content cannot be empty'' [] None)
      else let content = TrimSpace content in
        if content = [] then Inl (Errorf ''content cannot be empty after trimming'' [] None)
        else Inr \<lparr>Date = date, Amount = amount, Content = content\<rparr>)"

definition IsIncome :: "Transaction \<Rightarrow> bool" where
  "IsIncome t \<longleftrightarrow> 0 <s Amount t"

definition IsExpense :: "Transaction \<Rightarrow> bool" where
  "IsExpense t \<longleftrightarrow> Amount t <s 0"

section \<open>Library parsers used by the record decoder\<close>

definition isDigit :: "rune \<Rightarrow> bool" where
  "isDigit r \<longleftrightarrow> 48 \<le> r \<and> r \<le> 57"

subsection \<open>\<open>time.Parse\<close> with the layout \<open>2006/01/02\<close>\<close>

definition isLeap :: "int \<Rightarrow> bool" where
  "isLeap year \<longleftrightarrow> year mod 4 = 0 \<and> (year mod 100 \<noteq> 0 \<or> year mod 400 = 0)"

definition daysIn :: "nat \<Rightarrow> int \<Rightarrow> nat" where
  "daysIn m year =
     (if m = 2 \<and> isLeap year then 29
      else if m = 2 then 28
      else if m = 4 \<or> m = 6 \<or> m = 9 \<or> m = 11 then 30
      else 31)"

text \<open>The year element: exactly four digits.\<close>

definition getLongYear :: "gostring \<Rightarrow> (nat \<times> gostring) option" where
  "getLongYear s =
     (case s of
        a # b # c # d # rest \<Rightarrow>
          if isDigit a \<and> isDigit b \<and> isDigit c \<and> isDigit d
          then Some ((a - 48) * 1000 + (b - 48) * 100 + (c - 48) * 10 + (d - 48), rest)
          else None
      | _ \<Rightarrow> None)"

text \<open>\<open>getnum(s, true)\<close>: exactly two digits.\<close>

definition getnum :: "gostring \<Rightarrow> (nat \<times> gostring) option" where
  "getnum s =
     (case s of
        a # b # rest \<Rightarrow>
          if isDigit a \<and> isDigit b then Some ((a - 48) * 10 + (b - 48), rest) else None
      | _ \<Rightarrow> None)"

text \<open>\<open>skip(value, "/")\<close>.\<close>

definition skipSlash :: "gostring \<Rightarrow> gostring option" where
  "skipSlash s = (case s of c # rest \<Rightarrow> if c = 47 then Some rest else None | [] \<Rightarrow> None)"

text \<open>
  \<open>time.Parse(domain.CSVDateLayout, v)\<close>: the elements of the layout are read in turn, a
  month outside 1 to 12 is refused when it is read, text left over after the day is
  refused, and the day is checked against the month and the year last. The text left
  over is quoted in the message by the library; it is kept here as the argument.
\<close>

definition CSVDateLayout :: gostring where
  "CSVDateLayout = str ''2006/01/02''"

definition time_Parse :: "gostring \<Rightarrow> error + Time" where
  "time_Parse v =
     (case getLongYear v of
        None \<Rightarrow> Inl (TimeParseError CSVDateLayout v (str ''2006'') v (Lit []))
      | Some (year, v1) \<Rightarrow>
     (case skipSlash v1 of
        None \<Rightarrow> Inl (TimeParseError CSVDateLayout v (str ''/'') v1 (Lit []))
      | Some v2 \<Rightarrow>
     (case getnum v2 of
        None \<Rightarrow> Inl (TimeParseError CSVDateLayout v (str ''01'') v2 (Lit []))
      | Some (month, v3) \<Rightarrow>
          if month \<le> 0 \<or> 12 < month
          then Inl (TimeParseError CSVDateLayout v (str ''01'') v3 (Lit '': month out of range''))
          else
     (case skipSlash v3 of
        None \<Rightarrow> Inl (TimeParseError CSVDateLayout v (str ''/'') v3 (Lit []))
      | Some v4 \<Rightarrow>
     (case getnum v4 of
        None \<Rightarrow> Inl (TimeParseError CSVDateLayout v (str ''02'') v4 (Lit []))
      | Some (day, v5) \<Rightarrow>
          if v5 \<noteq> []
          then Inl (TimeParseError CSVDateLayout v [] v5
                      (Sprintf '': extra text: %s'' [ArgString v5]))
          else if day < 1 \<or> day > daysIn month (int year)
            then Inl (TimeParseError CSVDateLayout v [] v5 (Lit '': day out of range''))
          else Inr \<lparr>Year = int year, Month = month, Day = day, Clock = 0\<rparr>)))))"

subsection \<open>\<open>strconv.ParseInt(s, 10, 64)\<close>\<close>

text \<open>The digit loop of \<open>strconv.ParseUint\<close> for base 10 and 64 bits.\<close>

fun ParseUint_loop :: "nat \<Rightarrow> gostring \<Rightarrow> error + nat" where
  "ParseUint_loop n [] = Inr n"
| "ParseUint_loop n (c # cs) =
     (if \<not> isDigit c then Inl ErrSyntax
      else if n \<ge> (2 ^ 64 - 1) div 10 + 1 then Inl ErrRange
      else let n1 = n * 10 + (c - 48) in
        if n1 > 2 ^ 64 - 1 then Inl ErrRange
        else ParseUint_loop n1 cs)"

definition ParseUint :: "gostring \<Rightarrow> error + nat" where
  "ParseUint s = (if s = [] then Inl ErrSyntax else ParseUint_loop 0 s)"

definition ParseInt :: "gostring \<Rightarrow> error + int64" where
  "ParseInt s0 =
     (if s0 = [] then Inl (NumError s0 ErrSyntax)
      else let neg = (hd s0 = 45);
               s = (if hd s0 = 43 \<or> hd s0 = 45 then tl s0 else s0)
      in case ParseUint s of
           Inl e \<Rightarrow> Inl (NumError s0 e)
         | Inr un \<Rightarrow>
             if \<not> neg \<and> un \<ge> 2 ^ 63 then Inl (NumError s0 ErrRange)
             else if neg \<and> un > 2 ^ 63 then Inl (NumError s0 ErrRange)
             else Inr (if neg then - (word_of_nat un) else word_of_nat un))"


subsection \<open>\<open>strings.EqualFold\<close>\<close>

text \<open>
  Two strings are equal under simple case folding when they have the same number of
  code points and these agree pairwise up to folding. For a pair with both code points
  below \<open>utf8.RuneSelf\<close> the source compares upper against lower case letters; otherwise it
  walks the orbit of \<open>unicode.SimpleFold\<close> from the smaller one. The orbits that contain
  an ASCII letter and a code point beyond ASCII are \<open>K k U+212A\<close> and \<open>S s U+017F\<close>; the
  folding table for pairs of two distinct code points beyond ASCII is not reproduced
  (such a pair is answered \<open>False\<close>), which no comparison of this program reaches: one
  side is always an ASCII column name.
\<close>

definition equalFoldRune :: "rune \<Rightarrow> rune \<Rightarrow> bool" where
  "equalFoldRune a b =
     (let sr = min a b; tr = max a b in
      if tr = sr then True
      else if tr < 128 then 65 \<le> sr \<and> sr \<le> 90 \<and> tr = sr + 32
      else ((sr = 75 \<or> sr = 107) \<and> tr = 8490) \<or> ((sr = 83 \<or> sr = 115) \<and> tr = 383))"

fun EqualFold :: "gostring \<Rightarrow> gostring \<Rightarrow> bool" where
  "EqualFold [] [] = True"
| "EqualFold (sr # s) (tr # t) = (equalFoldRune sr tr \<and> EqualFold s t)"
| "EqualFold _ _ = False"

section \<open>internal/adapters/out/parser/filtered\_csv\_parser.go\<close>

definition streamingColDate :: gostring where
  "streamingColDate = str ''date''"

definition streamingColAmount :: gostring where
  "streamingColAmount = str ''amount''"

definition streamingColContent :: gostring where
  "streamingColContent = str ''content''"

definition streamingEq :: "gostring \<Rightarrow> gostring \<Rightarrow> bool" where
  "streamingEq a b = EqualFold (TrimSpace a) (TrimSpace b)"

text \<open>The byte-order mark \<open>U+FEFF\<close>.\<close>

definition BOM :: gostring where
  "BOM = [65279]"

text \<open>
  \<open>streamingValidateHeader\<close> returns \<open>nil\<close> (here \<open>None\<close>) when the header is accepted.
  The assignment to \<open>header[0]\<close> is visible in the second error only.
\<close>

definition streamingValidateHeader :: "gostring list \<Rightarrow> error option" where
  "streamingValidateHeader header =
     (if length header < 3
      then Some (Errorf ''invalid header: expected 3 columns, got %d''
                   [ArgInt (int (length header))] None)
      else let header = header[0 := TrimPrefix (header ! 0) BOM] in
        if \<not> streamingEq (header ! 0) streamingColDate
           \<or> \<not> streamingEq (header ! 1) streamingColAmount
           \<or> \<not> streamingEq (header ! 2) streamingColContent
        then Some (Errorf ''unexpected header: %v (expected: %s,%s,%s)''
                     [ArgStrings header, ArgString streamingColDate,
                      ArgString streamingColAmount, ArgString streamingColContent] None)
        else None)"

definition streamingParseRecord :: "gostring list \<Rightarrow> error + Transaction" where
  "streamingParseRecord record =
     (if length record \<noteq> 3
      then Inl (NewParseError
                  (Sprintf ''invalid record: expected 3 columns, got %d''
                     [ArgInt (int (length record))])
                  (Errorf ''record: %v'' [ArgStrings record] None))
      else let dateStr = TrimSpace (record ! 0);
               amountStr = TrimSpace (record ! 1);
               content = TrimSpace (record ! 2)
      in if dateStr = [] \<or> amountStr = [] \<or> content = []
         then Inl (NewValidationError (Lit ''empty column in record'')
                     [(''record'', ArgStrings record), (''date'', ArgString dateStr),
                      (''amount'', ArgString amountStr), (''content'', ArgString content)])
         else case time_Parse dateStr of
                Inl err \<Rightarrow>
                  Inl (NewParseError (Sprintf ''failed to parse date: %s'' [ArgString dateStr]) err)
              | Inr date \<Rightarrow>
           (case ParseInt amountStr of
                Inl err \<Rightarrow>
                  Inl (NewParseError (Sprintf ''failed to parse amount: %s'' [ArgString amountStr]) err)
              | Inr amount \<Rightarrow> NewTransaction date amount content))"

subsection \<open>The reader and the context\<close>

text \<open>
  The \<open>csv.Reader\<close> is represented by the outcomes of its successive \<open>Read\<close> calls: a
  record, or an error other than \<open>io.EOF\<close> (of the CSV syntax or of the underlying
  stream, \<open>Inl\<close> with its text); once they are used up \<open>Read\<close> returns \<open>io.EOF\<close>. With
  \<open>FieldsPerRecord = -1\<close> the reader delivers records of any number of fields.
\<close>

type_synonym reader = "(string + gostring list) list"

fun Read :: "reader \<Rightarrow> (error + gostring list) \<times> reader" where
  "Read [] = (Inl EOF, [])"
| "Read (Inl readErr # r) = (Inl (OtherError readErr), r)"
| "Read (Inr record # r) = (Inr record, r)"

text \<open>
  A context is represented by what \<open>ctx.Err()\<close> is at each poll of \<open>ctx.Done()\<close>, polls
  being numbered from 0: \<open>None\<close> while the context is not done. \<open>Background\<close> is
  \<open>context.Background()\<close>, which is never done; \<open>CancelledFrom n\<close> is a context whose
  \<open>cancel\<close> function is called after \<open>n\<close> polls.
\<close>

type_synonym Context = "nat \<Rightarrow> error option"

definition Background :: Context where
  "Background k = None"

definition CancelledFrom :: "nat \<Rightarrow> Context" where
  "CancelledFrom n k = (if n \<le> k then Some Canceled else None)"

type_synonym result = "Transaction slice \<times> error option"

text \<open>
  The row loop of \<open>ParseWithFilter\<close>, one equation for each outcome of \<open>reader.Read()\<close>:
  \<open>io.EOF\<close>, another error, a record. When an iteration starts \<open>rowIndex - 2\<close> rows have
  been decoded and as many polls made; each iteration polls the context first.
\<close>

fun rowLoop ::
  "Context \<Rightarrow> (Transaction \<Rightarrow> bool) \<Rightarrow> reader \<Rightarrow> Transaction slice \<Rightarrow> nat \<Rightarrow> result" where
  "rowLoop ctx filterFunc [] transactions rowIndex =
     (case ctx (rowIndex - 2) of
        Some e \<Rightarrow> (NilSlice, Some e)
      | None \<Rightarrow> (transactions, None))"
| "rowLoop ctx filterFunc (Inl readErr # r) transactions rowIndex =
     (case ctx (rowIndex - 2) of
        Some e \<Rightarrow> (NilSlice, Some e)
      | None \<Rightarrow>
          (NilSlice,
           Some (Errorf ''read record at line %d: %w'' [ArgInt (int rowIndex)]
                   (Some (OtherError readErr)))))"
| "rowLoop ctx filterFunc (Inr record # r) transactions rowIndex =
     (case ctx (rowIndex - 2) of
        Some e \<Rightarrow> (NilSlice, Some e)
      | None \<Rightarrow>
     (case streamingParseRecord record of
        Inl err \<Rightarrow> (NilSlice, Some (Errorf ''line %d: %w'' [ArgInt (int rowIndex)] (Some err)))
      | Inr transaction \<Rightarrow>
          rowLoop ctx filterFunc r
            (if filterFunc transaction then append_slice transactions transaction
             else transactions)
            (rowIndex + 1)))"

definition ParseWithFilter :: "Context \<Rightarrow> reader \<Rightarrow> (Transaction \<Rightarrow> bool) \<Rightarrow> result" where
  "ParseWithFilter ctx r filterFunc =
     (case Read r of
        (Inl err, _) \<Rightarrow> (NilSlice, Some (Errorf ''read header: %w'' [] (Some err)))
      | (Inr header, r') \<Rightarrow>
     (case streamingValidateHeader header of
        Some err \<Rightarrow> (NilSlice, Some err)
      | None \<Rightarrow> rowLoop ctx filterFunc r' NilSlice 2))"

definition ParseWithPeriodFilter :: "Context \<Rightarrow> reader \<Rightarrow> int \<Rightarrow> int \<Rightarrow> result" where
  "ParseWithPeriodFilter ctx r year month =
     ParseWithFilter ctx r
       (\<lambda>transaction. Year (Date transaction) = year \<and> int (Month (Date transaction)) = month)"

text \<open>
  The specification's comparison of dates at day granularity: \<open>notAfterDay t u\<close> when the
  calendar day of \<open>t\<close> is the day of \<open>u\<close> or an earlier one.
\<close>

definition notAfterDay :: "Time \<Rightarrow> Time \<Rightarrow> bool" where
  "notAfterDay t u \<longleftrightarrow>
     Year t < Year u \<or> (Year t = Year u \<and>
       (Month t < Month u \<or> (Month t = Month u \<and> Day t \<le> Day u)))"

text \<open>
  Modelled from the spec: \<open>util.Between\<close>, which \<open>ParseWithDateRangeFilter\<close> and
  \<open>TransactionServiceImpl.GetTransactionsByDateRange\<close> call, has its tests among the
  sources but not its file. The specification (4.3) gives the date-range predicate as
  \<open>record.date >= start AND record.date <= end\<close>, inclusive on both ends, compared at day
  granularity, the time of day being normalised away before the comparison.
\<close>

definition Between :: "Time \<Rightarrow> Time \<Rightarrow> Time \<Rightarrow> bool" where
  "Between date startDate endDate \<longleftrightarrow> notAfterDay startDate date \<and> notAfterDay date endDate"

definition ParseWithDateRangeFilter :: "Context \<Rightarrow> reader \<Rightarrow> Time \<Rightarrow> Time \<Rightarrow> result" where
  "ParseWithDateRangeFilter ctx r startDate endDate =
     ParseWithFilter ctx r (\<lambda>transaction. Between (Date transaction) startDate endDate)"


section \<open>Sorting\<close>

text \<open>
  \<open>sort.SliceStable(x, less)\<close> sorts in place by \<open>less\<close> and keeps elements that \<open>less\<close>
  does not order in their original order. It is represented by a stable insertion sort:
  an element is placed behind the elements that \<open>less\<close> (here \<open>lessFn\<close>) puts before it and in front of
  all others, which come later in the input.
\<close>

fun insertStable :: "('a \<Rightarrow> 'a \<Rightarrow> bool) \<Rightarrow> 'a \<Rightarrow> 'a list \<Rightarrow> 'a list" where
  "insertStable lessFn x [] = [x]"
| "insertStable lessFn x (y # ys) =
     (if lessFn y x then y # insertStable lessFn x ys else x # y # ys)"

fun SliceStable :: "('a \<Rightarrow> 'a \<Rightarrow> bool) \<Rightarrow> 'a list \<Rightarrow> 'a list" where
  "SliceStable lessFn [] = []"
| "SliceStable lessFn (x # xs) = insertStable lessFn x (SliceStable lessFn xs)"

text \<open>
  The call made by every service:
  \<open>sort.SliceStable(ts, func(i, j) bool { return ts[i].Date.After(ts[j].Date) })\<close>.
\<close>

definition sortNewestFirst :: "Transaction slice \<Rightarrow> Transaction slice" where
  "sortNewestFirst ts = map_elems (SliceStable (\<lambda>a b. After (Date a) (Date b))) ts"

section \<open>internal/usecase\<close>

text \<open>
  \<open>Source.Open\<close> is an interface method of a collaborator; the services use its result
  only.
\<close>

type_synonym Source = "Context \<Rightarrow> gostring \<Rightarrow> error + reader"

text \<open>validator.go\<close>

definition ValidatePeriod :: "int \<Rightarrow> int \<Rightarrow> error option" where
  "ValidatePeriod year month =
     (if month < 1 \<or> month > 12
      then Some (NewValidationError (Lit ''invalid month'') [(''month'', ArgInt month)])
      else None)"

text \<open>optimized\_transaction\_service.go\<close>

definition GetTransactionsByPeriodOptimized ::
  "Source \<Rightarrow> Context \<Rightarrow> gostring \<Rightarrow> int \<Rightarrow> int \<Rightarrow> result" where
  "GetTransactionsByPeriodOptimized source ctx csvFileURI year month =
     (case ValidatePeriod year month of
        Some err \<Rightarrow> (NilSlice, Some err)
      | None \<Rightarrow>
     (case source ctx csvFileURI of
        Inl err \<Rightarrow> (NilSlice, Some (NewIOError (Lit ''failed to open CSV source'') err))
      | Inr csvReader \<Rightarrow>
     (case ParseWithPeriodFilter ctx csvReader year month of
        (_, Some err) \<Rightarrow> (NilSlice, Some (NewParseError (Lit ''failed to parse CSV'') err))
      | (transactions, None) \<Rightarrow> (sortNewestFirst transactions, None))))"

definition GetTransactionsByDateRangeOptimized ::
  "Source \<Rightarrow> Context \<Rightarrow> gostring \<Rightarrow> Time \<Rightarrow> Time \<Rightarrow> result" where
  "GetTransactionsByDateRangeOptimized source ctx csvFileURI startDate endDate =
     (case source ctx csvFileURI of
        Inl err \<Rightarrow> (NilSlice, Some (NewIOError (Lit ''failed to open CSV source'') err))
      | Inr csvReader \<Rightarrow>
     (case ParseWithDateRangeFilter ctx csvReader startDate endDate of
        (_, Some err) \<Rightarrow> (NilSlice, Some (NewParseError (Lit ''failed to parse CSV'') err))
      | (transactions, None) \<Rightarrow> (sortNewestFirst transactions, None)))"

fun totalsLoop :: "Transaction list \<Rightarrow> int64 \<Rightarrow> int64 \<Rightarrow> int64 \<times> int64" where
  "totalsLoop [] totalIncome totalExpenditure = (totalIncome, totalExpenditure)"
| "totalsLoop (transaction # rest) totalIncome totalExpenditure =
     (if IsIncome transaction
      then totalsLoop rest (totalIncome + Amount transaction) totalExpenditure
      else if IsExpense transaction
      then totalsLoop rest totalIncome (totalExpenditure + Amount transaction)
      else totalsLoop rest totalIncome totalExpenditure)"

definition CalculateTotalsOptimized :: "Transaction slice \<Rightarrow> int64 \<times> int64" where
  "CalculateTotalsOptimized transactions = totalsLoop (elems transactions) 0 0"

text \<open>
  transaction\_service.go holds two services. \<open>GetAllTransactions\<close> and \<open>CalculateTotals\<close>
  are written the same in both; \<open>TransactionServiceImpl.GetTransactionsByDateRange\<close>
  selects with \<open>util.Between\<close>, \<open>TransactionService.GetTransactionsByDateRange\<close> with the
  comparison written out (\<open>inDateRange\<close>).
\<close>

type_synonym Parser = "Context \<Rightarrow> reader \<Rightarrow> result"

definition GetAllTransactions :: "Source \<Rightarrow> Parser \<Rightarrow> Context \<Rightarrow> gostring \<Rightarrow> result" where
  "GetAllTransactions source parser ctx csvFileURI =
     (case source ctx csvFileURI of
        Inl err \<Rightarrow> (NilSlice, Some (NewIOError (Lit ''failed to open CSV source'') err))
      | Inr csvReader \<Rightarrow>
     (case parser ctx csvReader of
        (_, Some err) \<Rightarrow> (NilSlice, Some (NewParseError (Lit ''failed to parse CSV'') err))
      | (transactions, None) \<Rightarrow> (transactions, None)))"

fun betweenLoop ::
  "Time \<Rightarrow> Time \<Rightarrow> Transaction list \<Rightarrow> Transaction slice \<Rightarrow> Transaction slice" where
  "betweenLoop startDate endDate [] filteredTransactions = filteredTransactions"
| "betweenLoop startDate endDate (transaction # rest) filteredTransactions =
     betweenLoop startDate endDate rest
       (if Between (Date transaction) startDate endDate
        then append_slice filteredTransactions transaction
        else filteredTransactions)"

definition TransactionServiceImpl_GetTransactionsByDateRange ::
  "Source \<Rightarrow> Parser \<Rightarrow> Context \<Rightarrow> gostring \<Rightarrow> Time \<Rightarrow> Time \<Rightarrow> result" where
  "TransactionServiceImpl_GetTransactionsByDateRange source parser ctx csvFileURI startDate endDate =
     (case GetAllTransactions source parser ctx csvFileURI of
        (_, Some err) \<Rightarrow> (NilSlice, Some err)
      | (allTransactions, None) \<Rightarrow>
          (sortNewestFirst (betweenLoop startDate endDate (elems allTransactions) NilSlice),
           None))"

definition inDateRange :: "Time \<Rightarrow> Time \<Rightarrow> Transaction \<Rightarrow> bool" where
  "inDateRange startDate endDate transaction \<longleftrightarrow>
     (Equal (Date transaction) startDate \<or> After (Date transaction) startDate) \<and>
     (Equal (Date transaction) endDate \<or> Before (Date transaction) endDate)"

fun dateRangeLoop ::
  "Time \<Rightarrow> Time \<Rightarrow> Transaction list \<Rightarrow> Transaction slice \<Rightarrow> Transaction slice" where
  "dateRangeLoop startDate endDate [] filteredTransactions = filteredTransactions"
| "dateRangeLoop startDate endDate (transaction # rest) filteredTransactions =
     dateRangeLoop startDate endDate rest
       (if inDateRange startDate endDate transaction
        then append_slice filteredTransactions transaction
        else filteredTransactions)"

definition TransactionService_GetTransactionsByDateRange ::
  "Source \<Rightarrow> Parser \<Rightarrow> Context \<Rightarrow> gostring \<Rightarrow> Time \<Rightarrow> Time \<Rightarrow> result" where
  "TransactionService_GetTransactionsByDateRange source parser ctx csvFileURI startDate endDate =
     (case GetAllTransactions source parser ctx csvFileURI of
        (_, Some err) \<Rightarrow> (NilSlice, Some err)
      | (allTransactions, None) \<Rightarrow>
          (sortNewestFirst (dateRangeLoop startDate endDate (elems allTransactions) NilSlice),
           None))"

definition CalculateTotals :: "Transaction slice \<Rightarrow> int64 \<times> int64" where
  "CalculateTotals transactions = totalsLoop (elems transactions) 0 0"

text \<open>
  The collaborators of the tests (transaction\_service\_test.go): \<open>mockSource\<close> opens the
  reader it holds unless it holds an error, \<open>mockParser\<close> returns the transactions it holds
  unless it holds an error.
\<close>

definition mockSource :: "reader \<Rightarrow> error option \<Rightarrow> Source" where
  "mockSource r err ctx uri = (case err of Some e \<Rightarrow> Inl e | None \<Rightarrow> Inr r)"

definition mockParser :: "Transaction slice \<Rightarrow> error option \<Rightarrow> Parser" where
  "mockParser transactions err ctx r =
     (case err of Some e \<Rightarrow> (NilSlice, Some e) | None \<Rightarrow> (transactions, None))"

section \<open>internal/service/statement\_generator.go\<close>

fun filterForMonthLoop ::
  "int \<Rightarrow> int \<Rightarrow> Transaction list \<Rightarrow> Transaction slice \<Rightarrow> int64 \<Rightarrow> int64
     \<Rightarrow> Transaction slice \<times> int64 \<times> int64" where
  "filterForMonthLoop year month [] filteredTransactions totalIncome totalExpense =
     (filteredTransactions, totalIncome, totalExpense)"
| "filterForMonthLoop year month (transaction # rest) filteredTransactions totalIncome totalExpense =
     (if Year (Date transaction) = year \<and> int (Month (Date transaction)) = month
      then (if 0 <s Amount transaction
            then filterForMonthLoop year month rest
                   (append_slice filteredTransactions transaction)
                   (totalIncome + Amount transaction) totalExpense
            else filterForMonthLoop year month rest
                   (append_slice filteredTransactions transaction)
                   totalIncome (totalExpense + Amount transaction))
      else filterForMonthLoop year month rest filteredTransactions totalIncome totalExpense)"

definition filterForMonth ::
  "Transaction slice \<Rightarrow> int \<Rightarrow> int \<Rightarrow> Transaction slice \<times> int64 \<times> int64" where
  "filterForMonth transactions year month =
     filterForMonthLoop year month (elems transactions) NilSlice 0 0"

text \<open>
  Decimal text as \<open>strconv.FormatInt(i, 10)\<close> and the \<open>appendInt\<close> of \<open>Time.Format\<close>
  write it: the digits of the magnitude, padded with zeros to the width, behind a minus
  sign for a negative number.
\<close>

fun decimal :: "nat \<Rightarrow> gostring" where
  "decimal n = (if n < 10 then [48 + n] else decimal (n div 10) @ [48 + n mod 10])"

declare decimal.simps [simp del]

definition appendInt :: "int \<Rightarrow> nat \<Rightarrow> gostring" where
  "appendInt x width =
     (let digits = decimal (nat \<bar>x\<bar>)
      in (if x < 0 then [45] else []) @ replicate (width - length digits) 48 @ digits)"

definition FormatInt :: "int64 \<Rightarrow> gostring" where
  "FormatInt i = appendInt (sint i) 0"

text \<open>\<open>Time.Format\<close> with the layout \<open>2006/01/02\<close>.\<close>

definition Format :: "Time \<Rightarrow> gostring" where
  "Format t = appendInt (Year t) 4 @ [47] @ appendInt (int (Month t)) 2 @ [47] @
              appendInt (int (Day t)) 2"

text \<open>
  \<open>model.TransactionDTO\<close> and \<open>model.Statement\<close>; the fields \<open>Date\<close>, \<open>Amount\<close> and
  \<open>Content\<close> of the projection are named \<open>dtoDate\<close>, \<open>dtoAmount\<close> and \<open>dtoContent\<close>, the
  names without prefix being those of \<open>Transaction\<close>.
\<close>

record TransactionDTO =
  dtoDate :: gostring
  dtoAmount :: gostring
  dtoContent :: gostring

record Statement =
  Period :: gostring
  TotalIncome :: int64
  TotalExpenditure :: int64
  Transactions :: "TransactionDTO slice"

definition toDTOs :: "Transaction slice \<Rightarrow> TransactionDTO slice" where
  "toDTOs transactions =
     Slice (map (\<lambda>transaction.
                   \<lparr>dtoDate = Format (Date transaction),
                    dtoAmount = FormatInt (Amount transaction),
                    dtoContent = Content transaction\<rparr>)
              (elems transactions))"

text \<open>
  The writer is a collaborator of which \<open>GenerateMonthly\<close> returns the error. Beside that
  error the function here gives the statements handed to \<open>Write\<close>: none when the source
  or the parser failed, one otherwise. \<open>mockWriter\<close> is the writer of the tests, which
  returns the error it holds.
\<close>

type_synonym Writer = "Statement \<Rightarrow> error option"

definition mockWriter :: "error option \<Rightarrow> Writer" where
  "mockWriter writeError statement = writeError"

definition GenerateMonthly ::
  "Source \<Rightarrow> Parser \<Rightarrow> Writer \<Rightarrow> Context \<Rightarrow> gostring \<Rightarrow> int \<Rightarrow> int \<Rightarrow> gostring
     \<Rightarrow> Statement list \<times> error option" where
  "GenerateMonthly source parse writer ctx periodDisplay year month csvFileURI =
     (case source ctx csvFileURI of
        Inl err \<Rightarrow> ([], Some (Errorf ''open source: %w'' [] (Some err)))
      | Inr csvReader \<Rightarrow>
     (case parse ctx csvReader of
        (_, Some err) \<Rightarrow> ([], Some (Errorf ''parse: %w'' [] (Some err)))
      | (allTransactions, None) \<Rightarrow>
     (case filterForMonth allTransactions year month of
        (monthlyTransactions, totalIncome, totalExpenditure) \<Rightarrow>
          let monthlyTransactions = sortNewestFirst monthlyTransactions;
              statement = \<lparr>Period = periodDisplay, TotalIncome = totalIncome,
                           TotalExpenditure = totalExpenditure,
                           Transactions = toDTOs monthlyTransactions\<rparr>
          in ([statement], writer statement))))"


section \<open>Notions used to state the properties\<close>

text \<open>The slice obtained by appending the elements of a list one after the other.\<close>

fun appendAll :: "'a slice \<Rightarrow> 'a list \<Rightarrow> 'a slice" where
  "appendAll s [] = s"
| "appendAll s (x # xs) = appendAll (append_slice s x) xs"

text \<open>
  The specification's comparison of header fields: equality of the trimmed field with
  the column name, upper-case ASCII letters counting as their lower-case ones.
\<close>

definition asciiLower :: "rune \<Rightarrow> rune" where
  "asciiLower r = (if 65 \<le> r \<and> r \<le> 90 then r + 32 else r)"

definition specFieldIs :: "string \<Rightarrow> gostring \<Rightarrow> bool" where
  "specFieldIs name field \<longleftrightarrow> map asciiLower (TrimSpace field) = str name"

text \<open>The instant of a time as a key in lexicographic order.\<close>

definition timeKey :: "Time \<Rightarrow> int \<times> nat \<times> nat \<times> nat" where
  "timeKey t = (Year t, Month t, Day t, Clock t)"

section \<open>Properties\<close>

subsection \<open>Totals\<close>

lemma not_income_and_expense: "IsIncome t \<Longrightarrow> \<not> IsExpense t"
  by (simp add: IsIncome_def IsExpense_def word_sless_alt)

lemma totalsLoop_sums:
  "totalsLoop ts ti te =
     (ti + sum_list (map Amount (filter IsIncome ts)),
      te + sum_list (map Amount (filter IsExpense ts)))"
  by (induction ts arbitrary: ti te) (simp_all add: not_income_and_expense add.assoc)

lemma totalsLoop_zero_amount:
  "Amount z = 0 \<Longrightarrow> totalsLoop (xs @ z # ys) ti te = totalsLoop (xs @ ys) ti te"
  by (simp add: totalsLoop_sums IsIncome_def IsExpense_def)

lemma sint_sum_list:
  "sint (sum_list (ws :: 'a::len word list)) = signed_take_bit (LENGTH('a) - 1) (sum_list (map sint ws))"
proof (induction ws)
  case Nil
  then show ?case by simp
next
  case (Cons w ws)
  have "sint (w + sum_list ws) = signed_take_bit (LENGTH('a) - 1) (sint w + sint (sum_list ws))"
    by (simp add: sint_word_ariths)
  also have "\<dots> = signed_take_bit (LENGTH('a) - 1) (sint w + sum_list (map sint ws))"
    unfolding Cons.IH
    by (metis signed_take_bit_add signed_take_bit_signed_take_bit min.idem)
  finally show ?case by simp
qed

lemma filterForMonthLoop_elems:
  "elems (fst (filterForMonthLoop y m ts acc ti te)) =
     elems acc @ filter (\<lambda>t. Year (Date t) = y \<and> int (Month (Date t)) = m) ts"
proof (induction ts arbitrary: acc ti te)
  case Nil
  then show ?case by simp
next
  case (Cons t ts)
  show ?case by (cases acc) (simp_all add: Cons.IH)
qed

lemma zero_amount: "\<not> IsIncome t \<Longrightarrow> \<not> IsExpense t \<Longrightarrow> Amount t = 0"
proof -
  assume "\<not> IsIncome t" "\<not> IsExpense t"
  then have "sint (Amount t) = 0"
    by (simp add: IsIncome_def IsExpense_def word_sless_alt)
  then show ?thesis by (simp only: signed_eq_0_iff)
qed

lemma filterForMonthLoop_totals:
  "snd (filterForMonthLoop y m ts acc ti te) =
     totalsLoop (filter (\<lambda>t. Year (Date t) = y \<and> int (Month (Date t)) = m) ts) ti te"
proof (induction ts arbitrary: acc ti te)
  case Nil
  then show ?case by simp
next
  case (Cons t ts)
  show ?case
  proof (cases "IsIncome t \<or> IsExpense t")
    case True
    then show ?thesis
      using not_income_and_expense [of t] by (auto simp: Cons.IH IsIncome_def)
  next
    case False
    then have "Amount t = 0" by (simp add: zero_amount)
    with False show ?thesis by (simp add: Cons.IH IsIncome_def)
  qed
qed

text \<open>
  When the sum of the selected amounts fits into 64 bits, the total is that sum; beyond
  that the addition of \<open>int64\<close> wraps around, as \<open>sint_sum_list\<close> says.
\<close>

lemma totalsLoop_exact:
  assumes "- (2 ^ 63) \<le> sum_list (map (sint \<circ> Amount) (filter IsIncome ts))"
    and "sum_list (map (sint \<circ> Amount) (filter IsIncome ts)) < 2 ^ 63"
  shows "sint (fst (totalsLoop ts 0 0)) = sum_list (map (sint \<circ> Amount) (filter IsIncome ts))"
proof -
  have "sint (fst (totalsLoop ts 0 0)) =
      signed_take_bit 63 (sum_list (map sint (map Amount (filter IsIncome ts))))"
    by (simp add: totalsLoop_sums sint_sum_list)
  also have "\<dots> = sum_list (map (sint \<circ> Amount) (filter IsIncome ts))"
    using assms by (simp add: signed_take_bit_int_eq_self)
  finally show ?thesis .
qed

text \<open>
  C2. \<open>CalculateTotalsOptimized\<close> (and \<open>CalculateTotals\<close>, the same loop) returns as
  \<open>totalIncome\<close> the sum of the amounts greater than zero and as \<open>totalExpenditure\<close> the
  sum of the amounts less than zero, both sums taken in \<open>int64\<close>; \<open>filterForMonth\<close>
  returns these totals of the transactions it keeps. A transaction with amount zero
  changes neither total, and the empty list yields \<open>(0, 0)\<close>.
\<close>

theorem CalculateTotals_sums:
  "CalculateTotalsOptimized ts =
     (sum_list [Amount t. t \<leftarrow> elems ts, 0 <s Amount t],
      sum_list [Amount t. t \<leftarrow> elems ts, Amount t <s 0])
   \<and> CalculateTotals ts = CalculateTotalsOptimized ts
   \<and> snd (filterForMonth ts year month) =
       CalculateTotalsOptimized (fst (filterForMonth ts year month))
   \<and> CalculateTotalsOptimized (Slice (xs @ t\<lparr>Amount := 0\<rparr> # ys)) =
       CalculateTotalsOptimized (Slice (xs @ ys))
   \<and> CalculateTotalsOptimized NilSlice = (0, 0)
   \<and> CalculateTotalsOptimized (Slice []) = (0, 0)"
proof -
  have a: "[Amount t. t \<leftarrow> xs, 0 <s Amount t] = map Amount (filter IsIncome xs)" for xs
    by (induction xs) (simp_all add: IsIncome_def)
  have b: "[Amount t. t \<leftarrow> xs, Amount t <s 0] = map Amount (filter IsExpense xs)" for xs
    by (induction xs) (simp_all add: IsExpense_def)
  have 1: "CalculateTotalsOptimized ts =
     (sum_list [Amount t. t \<leftarrow> elems ts, 0 <s Amount t],
      sum_list [Amount t. t \<leftarrow> elems ts, Amount t <s 0])"
    unfolding a b by (simp add: CalculateTotalsOptimized_def totalsLoop_sums)
  have 2: "CalculateTotals ts = CalculateTotalsOptimized ts"
    by (simp add: CalculateTotals_def CalculateTotalsOptimized_def)
  have 3: "snd (filterForMonth ts year month) =
       CalculateTotalsOptimized (fst (filterForMonth ts year month))"
    by (simp add: filterForMonth_def filterForMonthLoop_elems filterForMonthLoop_totals
        CalculateTotalsOptimized_def)
  have 4: "CalculateTotalsOptimized (Slice (xs @ t\<lparr>Amount := 0\<rparr> # ys)) =
       CalculateTotalsOptimized (Slice (xs @ ys))"
    by (simp add: CalculateTotalsOptimized_def totalsLoop_zero_amount)
  have 5: "CalculateTotalsOptimized NilSlice = (0, 0)" "CalculateTotalsOptimized (Slice []) = (0, 0)"
    by (simp_all add: CalculateTotalsOptimized_def)
  from 1 2 3 4 5 show ?thesis by blast
qed



subsection \<open>Trimming\<close>

lemma dropWhile_unchanged: "xs = [] \<or> \<not> P (hd xs) \<Longrightarrow> dropWhile P xs = xs"
  by (cases xs) auto

lemma trimRight_prefix: "\<exists>ys. xs = rev (dropWhile P (rev xs)) @ ys"
proof -
  have "rev xs = takeWhile P (rev xs) @ dropWhile P (rev xs)" by simp
  then have "rev (rev xs) = rev (takeWhile P (rev xs) @ dropWhile P (rev xs))" by (rule arg_cong)
  then have "xs = rev (dropWhile P (rev xs)) @ rev (takeWhile P (rev xs))"
    by (simp only: rev_rev_ident rev_append)
  then show ?thesis ..
qed

lemma TrimSpace_head: "TrimSpace s \<noteq> [] \<Longrightarrow> \<not> IsSpace (hd (TrimSpace s))"
proof -
  assume ne: "TrimSpace s \<noteq> []"
  let ?d = "dropWhile IsSpace s"
  obtain ys where d: "?d = TrimSpace s @ ys"
    using trimRight_prefix [of ?d IsSpace] by (auto simp: TrimSpace_def)
  with ne have "?d \<noteq> []" and "hd ?d = hd (TrimSpace s)" by auto
  then show ?thesis using hd_dropWhile [of IsSpace s] by simp
qed

lemma TrimSpace_last: "TrimSpace s \<noteq> [] \<Longrightarrow> \<not> IsSpace (last (TrimSpace s))"
proof -
  assume ne: "TrimSpace s \<noteq> []"
  let ?e = "dropWhile IsSpace (rev (dropWhile IsSpace s))"
  from ne have "?e \<noteq> []" by (simp add: TrimSpace_def)
  then have "\<not> IsSpace (hd ?e)" by (rule hd_dropWhile)
  moreover have "last (TrimSpace s) = hd ?e"
    using \<open>?e \<noteq> []\<close> by (simp add: TrimSpace_def last_rev)
  ultimately show ?thesis by simp
qed

lemma TrimSpace_idem: "TrimSpace (TrimSpace s) = TrimSpace s"
proof (cases "TrimSpace s = []")
  case True
  have "TrimSpace [] = []" by (simp add: TrimSpace_def)
  with True show ?thesis by simp
next
  case False
  let ?t = "TrimSpace s"
  have 1: "dropWhile IsSpace ?t = ?t"
    using False TrimSpace_head [of s] by (intro dropWhile_unchanged) simp
  have "hd (rev ?t) = last ?t" using False by (simp add: hd_rev)
  then have 2: "dropWhile IsSpace (rev ?t) = rev ?t"
    using False TrimSpace_last [of s] by (intro dropWhile_unchanged) simp
  show ?thesis
    unfolding TrimSpace_def [of ?t] 1 2 by simp
qed

lemma TrimSpace_empty_iff: "TrimSpace s = [] \<longleftrightarrow> (\<forall>r \<in> set s. IsSpace r)"
proof
  assume "TrimSpace s = []"
  then have "dropWhile IsSpace (rev (dropWhile IsSpace s)) = []" by (simp add: TrimSpace_def)
  then have "\<forall>r \<in> set (rev (dropWhile IsSpace s)). IsSpace r" by (simp add: dropWhile_eq_Nil_conv)
  then have "dropWhile IsSpace s = []"
    using hd_dropWhile [of IsSpace s] by (cases "dropWhile IsSpace s") auto
  then show "\<forall>r \<in> set s. IsSpace r" by (simp add: dropWhile_eq_Nil_conv)
next
  assume "\<forall>r \<in> set s. IsSpace r"
  then have d: "dropWhile IsSpace s = []" by (simp add: dropWhile_eq_Nil_conv)
  show "TrimSpace s = []" unfolding TrimSpace_def d by simp
qed


subsection \<open>The record decoder\<close>

lemma NewTransaction_cases:
  "NewTransaction date amount content =
     (if TrimSpace content = []
      then Inl (Errorf (if content = [] then ''content cannot be empty''
                        else ''content cannot be empty after trimming'') [] None)
      else Inr \<lparr>Date = date, Amount = amount, Content = TrimSpace content\<rparr>)"
  by (simp add: NewTransaction_def Let_def TrimSpace_def)

lemma NewTransaction_trimmed:
  "NewTransaction date amount content = Inr t \<Longrightarrow>
     t = \<lparr>Date = date, Amount = amount, Content = TrimSpace content\<rparr> \<and> Content t \<noteq> [] \<and>
     TrimSpace (Content t) = Content t"
  by (auto simp: NewTransaction_cases TrimSpace_idem split: if_splits)

lemma streamingParseRecord_Inr:
  assumes "streamingParseRecord record = Inr t"
  shows "\<exists>date amount. time_Parse (TrimSpace (record ! 0)) = Inr date \<and>
           ParseInt (TrimSpace (record ! 1)) = Inr amount \<and> length record = 3 \<and>
           NewTransaction date amount (TrimSpace (record ! 2)) = Inr t"
  using assms
  by (auto simp: streamingParseRecord_def Let_def NewParseError_def NewValidationError_def
      split: if_splits sum.splits)

lemma streamingParseRecord_fails_iff:
  "(\<exists>e. streamingParseRecord record = Inl e) \<longleftrightarrow>
     length record \<noteq> 3 \<or> TrimSpace (record ! 0) = [] \<or> TrimSpace (record ! 1) = [] \<or>
     TrimSpace (record ! 2) = [] \<or> (\<exists>e. time_Parse (TrimSpace (record ! 0)) = Inl e) \<or>
     (\<exists>e. ParseInt (TrimSpace (record ! 1)) = Inl e)"
  by (auto simp: streamingParseRecord_def Let_def NewTransaction_cases TrimSpace_idem
      split: sum.splits)

lemma time_Parse_midnight: "time_Parse v = Inr d \<Longrightarrow> Clock d = 0"
  by (auto simp: time_Parse_def split: option.splits if_splits prod.splits)

lemma streamingParseRecord_midnight:
  "streamingParseRecord record = Inr t \<Longrightarrow> Clock (Date t) = 0"
  by (auto dest!: streamingParseRecord_Inr NewTransaction_trimmed time_Parse_midnight)

subsection \<open>The row loop\<close>

lemma elems_append_slice [simp]: "elems (append_slice s x) = elems s @ [x]"
  by (cases s) simp_all

lemma elems_appendAll [simp]: "elems (appendAll s xs) = elems s @ xs"
  by (induction xs arbitrary: s) simp_all

text \<open>
  The loop over a prefix of rows that are read and decoded while no poll finds the context
  done: it goes on with the rest, the matching records appended.
\<close>

lemma rowLoop_prefix:
  assumes "map streamingParseRecord rs = map Inr ts"
    and "\<forall>j < length rs. ctx (n + j - 2) = None"
  shows "rowLoop ctx f (map Inr rs @ rest) acc n =
           rowLoop ctx f rest (appendAll acc (filter f ts)) (n + length rs)"
  using assms
proof (induction rs arbitrary: ts acc n)
  case Nil
  then show ?case by simp
next
  case (Cons r rs)
  from Cons.prems(1) obtain t ts' where ts: "ts = t # ts'"
    and t: "streamingParseRecord r = Inr t"
    and ts': "map streamingParseRecord rs = map Inr ts'"
    by (cases ts) auto
  from Cons.prems(2) have p0: "ctx (n - 2) = None" by force
  have pn: "\<forall>j < length rs. ctx (Suc n + j - 2) = None"
  proof (intro allI impI)
    fix j assume "j < length rs"
    then have "Suc j < length (r # rs)" by simp
    with Cons.prems(2) have "ctx (n + Suc j - 2) = None" by blast
    then show "ctx (Suc n + j - 2) = None" by simp
  qed
  show ?case
    using Cons.IH [OF ts' pn, of "if f t then append_slice acc t else acc"]
    by (simp add: ts t p0)
qed

lemma rowLoop_error_nil:
  "snd (rowLoop ctx f r acc n) \<noteq> None \<Longrightarrow> fst (rowLoop ctx f r acc n) = NilSlice"
  by (induction ctx f r acc n rule: rowLoop.induct)
     (auto split: option.splits sum.splits)

lemma rowLoop_bad_row:
  assumes "Inr bad \<in> set r" and "streamingParseRecord bad = Inl e"
  shows "\<exists>e'. rowLoop ctx f r acc n = (NilSlice, Some e')"
  using assms
  by (induction ctx f r acc n rule: rowLoop.induct)
     (auto split: option.splits sum.splits)

subsection \<open>The streaming filter-parser\<close>

text \<open>The definitions unfolded to evaluate the parser on a concrete input.\<close>

lemmas decode_defs =
  str_def TrimSpace_def IsSpace_def TrimPrefix_def BOM_def
  streamingColDate_def streamingColAmount_def streamingColContent_def
  streamingEq_def equalFoldRune_def streamingValidateHeader_def
  streamingParseRecord_def NewTransaction_def NewParseError_def NewValidationError_def
  time_Parse_def CSVDateLayout_def getLongYear_def getnum_def skipSlash_def isDigit_def
  daysIn_def isLeap_def
  ParseInt_def ParseUint_def Let_def

lemma ParseWithFilter_header_ok:
  "streamingValidateHeader header = None \<Longrightarrow>
     ParseWithFilter ctx (Inr header # r) f = rowLoop ctx f r NilSlice 2"
  by (simp add: ParseWithFilter_def)

text \<open>
  C1. For a reader whose header is accepted and whose rows all decode, and a context
  that is not done at any poll, \<open>ParseWithFilter\<close> returns without error exactly the
  decoded records on which the predicate holds, in the order of the rows.
\<close>

theorem ParseWithFilter_keeps_matching_records_in_order:
  assumes "streamingValidateHeader header = None"
    and "map streamingParseRecord rows = map Inr ts"
    and "\<forall>k \<le> length rows. ctx k = None"
  shows "snd (ParseWithFilter ctx (Inr header # map Inr rows) f) = None \<and>
         elems (fst (ParseWithFilter ctx (Inr header # map Inr rows) f)) = filter f ts"
proof -
  have polls: "\<forall>j < length rows. ctx (2 + j - 2) = None" using assms(3) by simp
  have last: "ctx (length rows) = None" using assms(3) by simp
  have "rowLoop ctx f (map Inr rows @ []) NilSlice 2 =
      rowLoop ctx f [] (appendAll NilSlice (filter f ts)) (2 + length rows)"
    using assms(2) polls by (rule rowLoop_prefix)
  then have "rowLoop ctx f (map Inr rows) NilSlice 2 = (appendAll NilSlice (filter f ts), None)"
    using last by simp
  then show ?thesis
    by (simp add: ParseWithFilter_header_ok [OF assms(1)])
qed

theorem ParseWithFilter_keeps_matching_records_in_order_witness:
  "snd (ParseWithFilter Background
          [Inr [str ''date'', str ''amount'', str ''content''],
           Inr [str ''2025/01/05'', str ''2000'', str ''Salary''],
           Inr [str ''2025/01/09'', str ''-300'', str ''Grocery''],
           Inr [str ''2025/01/15'', str ''150'', str ''Refund'']] IsIncome) = None \<and>
   elems (fst (ParseWithFilter Background
          [Inr [str ''date'', str ''amount'', str ''content''],
           Inr [str ''2025/01/05'', str ''2000'', str ''Salary''],
           Inr [str ''2025/01/09'', str ''-300'', str ''Grocery''],
           Inr [str ''2025/01/15'', str ''150'', str ''Refund'']] IsIncome)) =
     [\<lparr>Date = \<lparr>Year = 2025, Month = 1, Day = 5, Clock = 0\<rparr>, Amount = 2000,
        Content = str ''Salary''\<rparr>,
      \<lparr>Date = \<lparr>Year = 2025, Month = 1, Day = 15, Clock = 0\<rparr>, Amount = 150,
        Content = str ''Refund''\<rparr>]"
proof -
  have h: "streamingValidateHeader [str ''date'', str ''amount'', str ''content''] = None"
    by (simp add: decode_defs)
  have d: "map streamingParseRecord
             [[str ''2025/01/05'', str ''2000'', str ''Salary''],
              [str ''2025/01/09'', str ''-300'', str ''Grocery''],
              [str ''2025/01/15'', str ''150'', str ''Refund'']] =
           map Inr
             [\<lparr>Date = \<lparr>Year = 2025, Month = 1, Day = 5, Clock = 0\<rparr>, Amount = 2000,
                Content = str ''Salary''\<rparr>,
              \<lparr>Date = \<lparr>Year = 2025, Month = 1, Day = 9, Clock = 0\<rparr>, Amount = - 300,
                Content = str ''Grocery''\<rparr>,
              \<lparr>Date = \<lparr>Year = 2025, Month = 1, Day = 15, Clock = 0\<rparr>, Amount = 150,
                Content = str ''Refund''\<rparr>]"
    by (simp add: decode_defs)
  have c: "\<forall>k \<le> length
             [[str ''2025/01/05'', str ''2000'', str ''Salary''],
              [str ''2025/01/09'', str ''-300'', str ''Grocery''],
              [str ''2025/01/15'', str ''150'', str ''Refund'']]. Background k = None"
    by (simp add: Background_def)
  show ?thesis
    using ParseWithFilter_keeps_matching_records_in_order [OF h d c, of IsIncome]
    by (simp add: IsIncome_def word_sless_alt)
qed

text \<open>
  C6. The context is polled at the start of every iteration of the row loop, also of the
  one that would read \<open>io.EOF\<close>: when the rows before a poll were read and decoded and
  the context is done at that poll, \<open>ParseWithFilter\<close> returns the context's error and the
  \<open>nil\<close> slice, whatever was accumulated and whatever rows follow.
\<close>

theorem cancellation_returns_no_records:
  assumes "streamingValidateHeader header = None"
    and "map streamingParseRecord rs = map Inr ts"
    and "\<forall>j < length rs. ctx j = None"
    and "ctx (length rs) = Some e"
  shows "ParseWithFilter ctx (Inr header # map Inr rs @ rest) f = (NilSlice, Some e)"
proof -
  have polls: "\<forall>j < length rs. ctx (2 + j - 2) = None" using assms(3) by simp
  have "rowLoop ctx f (map Inr rs @ rest) NilSlice 2 =
      rowLoop ctx f rest (appendAll NilSlice (filter f ts)) (2 + length rs)"
    using assms(2) polls by (rule rowLoop_prefix)
  also have "\<dots> = (NilSlice, Some e)"
    using assms(4) by (cases rest rule: Read.cases) simp_all
  finally show ?thesis
    using ParseWithFilter_header_ok [OF assms(1), of ctx "map Inr rs @ rest" f] by simp
qed

theorem cancellation_returns_no_records_witness:
  "ParseWithFilter (CancelledFrom 2)
     [Inr [str ''date'', str ''amount'', str ''content''],
      Inr [str ''2025/01/01'', str ''1000'', str ''Test1''],
      Inr [str ''2025/01/02'', str ''2000'', str ''Test2''],
      Inr [str ''2025/01/03'', str ''3000'', str ''Test3'']] IsIncome = (NilSlice, Some Canceled)"
proof -
  have h: "streamingValidateHeader [str ''date'', str ''amount'', str ''content''] = None"
    by (simp add: decode_defs)
  have d: "map streamingParseRecord
             [[str ''2025/01/01'', str ''1000'', str ''Test1''],
              [str ''2025/01/02'', str ''2000'', str ''Test2'']] =
           map Inr
             [\<lparr>Date = \<lparr>Year = 2025, Month = 1, Day = 1, Clock = 0\<rparr>, Amount = 1000,
                Content = str ''Test1''\<rparr>,
              \<lparr>Date = \<lparr>Year = 2025, Month = 1, Day = 2, Clock = 0\<rparr>, Amount = 2000,
                Content = str ''Test2''\<rparr>]"
    by (simp add: decode_defs)
  have c: "\<forall>j < length
             [[str ''2025/01/01'', str ''1000'', str ''Test1''],
              [str ''2025/01/02'', str ''2000'', str ''Test2'']]. CancelledFrom 2 j = None"
    by (simp add: CancelledFrom_def)
  have e: "CancelledFrom 2 (length
             [[str ''2025/01/01'', str ''1000'', str ''Test1''],
              [str ''2025/01/02'', str ''2000'', str ''Test2'']]) = Some Canceled"
    by (simp add: CancelledFrom_def)
  show ?thesis
    using cancellation_returns_no_records
      [OF h d c e, of "[Inr [str ''2025/01/03'', str ''3000'', str ''Test3'']]" IsIncome]
    by simp
qed

lemma ParseWithFilter_error_nil:
  "snd (ParseWithFilter ctx r f) \<noteq> None \<Longrightarrow> fst (ParseWithFilter ctx r f) = NilSlice"
  by (cases r rule: Read.cases)
     (auto simp: ParseWithFilter_def rowLoop_error_nil split: option.splits)

lemma ParseWithFilter_bad_row:
  assumes "streamingParseRecord bad = Inl e"
  shows "\<exists>e'. ParseWithFilter ctx (first # before @ Inr bad # after) f = (NilSlice, Some e')"
proof (cases first)
  case (Inl readErr)
  then show ?thesis by (simp add: ParseWithFilter_def)
next
  case (Inr header)
  have "Inr bad \<in> set (before @ Inr bad # after)" by simp
  from rowLoop_bad_row [OF this assms]
  obtain e' where "rowLoop ctx f (before @ Inr bad # after) NilSlice 2 = (NilSlice, Some e')"
    by blast
  with Inr show ?thesis
    by (cases "streamingValidateHeader header") (simp_all add: ParseWithFilter_def)
qed

lemma ParseWithFilter_first_bad_row:
  assumes "streamingValidateHeader header = None"
    and "map streamingParseRecord rs = map Inr ts"
    and "\<forall>j \<le> length rs. ctx j = None"
    and "streamingParseRecord bad = Inl e"
  shows "ParseWithFilter ctx (Inr header # map Inr rs @ Inr bad # after) f =
           (NilSlice, Some (Errorf ''line %d: %w'' [ArgInt (int (length rs) + 2)] (Some e)))"
proof -
  have polls: "\<forall>j < length rs. ctx (2 + j - 2) = None" using assms(3) by simp
  have last: "ctx (length rs) = None" using assms(3) by simp
  have "rowLoop ctx f (map Inr rs @ Inr bad # after) NilSlice 2 =
      rowLoop ctx f (Inr bad # after) (appendAll NilSlice (filter f ts)) (2 + length rs)"
    using assms(2) polls by (rule rowLoop_prefix)
  also have "\<dots> = (NilSlice, Some (Errorf ''line %d: %w'' [ArgInt (int (length rs) + 2)] (Some e)))"
    using last assms(4) by simp
  finally show ?thesis
    using ParseWithFilter_header_ok [OF assms(1), of ctx "map Inr rs @ Inr bad # after" f] by simp
qed

text \<open>
  C4. A row that fails to decode (a number of fields other than three, a field that is
  empty once trimmed, a date or an amount that does not parse) makes the whole parse
  fail with the \<open>nil\<close> slice, whatever the other rows, the header, the context and the
  predicate are; when the header is accepted, the rows before it decode and the context
  is not done up to its poll, the error is the decoder's error wrapped with the index of
  that row.
\<close>

theorem invalid_row_fails_whole_parse:
  assumes "length bad \<noteq> 3 \<or> TrimSpace (bad ! 0) = [] \<or> TrimSpace (bad ! 1) = [] \<or>
           TrimSpace (bad ! 2) = [] \<or> (\<exists>e. time_Parse (TrimSpace (bad ! 0)) = Inl e) \<or>
           (\<exists>e. ParseInt (TrimSpace (bad ! 1)) = Inl e)"
  shows "\<exists>e. streamingParseRecord bad = Inl e \<and>
           (\<forall>ctx first before after f. \<exists>e'.
              ParseWithFilter ctx (first # before @ Inr bad # after) f = (NilSlice, Some e')) \<and>
           (\<forall>ctx header rs ts after f.
              streamingValidateHeader header = None \<longrightarrow>
              map streamingParseRecord rs = map Inr ts \<longrightarrow>
              (\<forall>j \<le> length rs. ctx j = None) \<longrightarrow>
              ParseWithFilter ctx (Inr header # map Inr rs @ Inr bad # after) f =
                (NilSlice,
                 Some (Errorf ''line %d: %w'' [ArgInt (int (length rs) + 2)] (Some e))))"
proof -
  from assms obtain e where e: "streamingParseRecord bad = Inl e"
    using streamingParseRecord_fails_iff [of bad] by blast
  have all_fail: "\<forall>ctx first before after f. \<exists>e'.
      ParseWithFilter ctx (first # before @ Inr bad # after) f = (NilSlice, Some e')"
    using ParseWithFilter_bad_row [OF e] by blast
  have indexed: "\<forall>ctx header rs ts after f.
      streamingValidateHeader header = None \<longrightarrow>
      map streamingParseRecord rs = map Inr ts \<longrightarrow>
      (\<forall>j \<le> length rs. ctx j = None) \<longrightarrow>
      ParseWithFilter ctx (Inr header # map Inr rs @ Inr bad # after) f =
        (NilSlice, Some (Errorf ''line %d: %w'' [ArgInt (int (length rs) + 2)] (Some e)))"
    using ParseWithFilter_first_bad_row [OF _ _ _ e] by blast
  from e all_fail indexed show ?thesis by blast
qed

theorem invalid_row_fails_whole_parse_witness:
  "ParseWithFilter Background
     [Inr [str ''date'', str ''amount'', str ''content''],
      Inr [str ''2025/01/01'', str ''1000'', str ''Valid''],
      Inr [str ''2025/01/02'', str ''Invalid Amount'', str ''Invalid''],
      Inr [str ''2025/01/03'', str ''2000'', str ''Valid'']] IsIncome =
   (NilSlice,
    Some (Errorf ''line %d: %w'' [ArgInt 3]
      (Some (DomainError ErrorTypeParse
         (Sprintf ''failed to parse amount: %s'' [ArgString (str ''Invalid Amount'')]) []
         (Some (NumError (str ''Invalid Amount'') ErrSyntax))))))"
proof -
  let ?bad = "[str ''2025/01/02'', str ''Invalid Amount'', str ''Invalid'']"
  let ?rs = "[[str ''2025/01/01'', str ''1000'', str ''Valid'']]"
  have amount: "\<exists>e. ParseInt (TrimSpace (?bad ! 1)) = Inl e"
    by (simp add: decode_defs)
  then have "length ?bad \<noteq> 3 \<or> TrimSpace (?bad ! 0) = [] \<or> TrimSpace (?bad ! 1) = [] \<or>
      TrimSpace (?bad ! 2) = [] \<or> (\<exists>e. time_Parse (TrimSpace (?bad ! 0)) = Inl e) \<or>
      (\<exists>e. ParseInt (TrimSpace (?bad ! 1)) = Inl e)"
    by blast
  from invalid_row_fails_whole_parse [OF this]
  obtain e where e: "streamingParseRecord ?bad = Inl e"
    and indexed: "\<And>ctx header rs ts after f.
      streamingValidateHeader header = None \<Longrightarrow>
      map streamingParseRecord rs = map Inr ts \<Longrightarrow>
      (\<forall>j \<le> length rs. ctx j = None) \<Longrightarrow>
      ParseWithFilter ctx (Inr header # map Inr rs @ Inr ?bad # after) f =
        (NilSlice, Some (Errorf ''line %d: %w'' [ArgInt (int (length rs) + 2)] (Some e)))"
    by blast
  have "streamingParseRecord ?bad =
      Inl (DomainError ErrorTypeParse
         (Sprintf ''failed to parse amount: %s'' [ArgString (str ''Invalid Amount'')]) []
         (Some (NumError (str ''Invalid Amount'') ErrSyntax)))"
    by (simp add: decode_defs)
  with e have e_eq: "e = DomainError ErrorTypeParse
         (Sprintf ''failed to parse amount: %s'' [ArgString (str ''Invalid Amount'')]) []
         (Some (NumError (str ''Invalid Amount'') ErrSyntax))"
    by simp
  have h: "streamingValidateHeader [str ''date'', str ''amount'', str ''content''] = None"
    by (simp add: decode_defs)
  have d: "map streamingParseRecord ?rs =
      map Inr [\<lparr>Date = \<lparr>Year = 2025, Month = 1, Day = 1, Clock = 0\<rparr>, Amount = 1000,
                 Content = str ''Valid''\<rparr>]"
    by (simp add: decode_defs)
  have c: "\<forall>j \<le> length ?rs. Background j = None"
    by (simp add: Background_def)
  show ?thesis
    using indexed [OF h d c, of "[Inr [str ''2025/01/03'', str ''2000'', str ''Valid'']]" IsIncome]
    by (simp add: e_eq)
qed

text \<open>
  C8, as the specification states it: a parse in which no record satisfies the predicate
  returns an empty slice that is not \<open>nil\<close>. It returns \<open>nil\<close>: the accumulator is declared
  without a value and nothing is appended to it.
\<close>

theorem no_match_result_is_nil_slice:
  "ParseWithPeriodFilter Background
     [Inr [str ''date'', str ''amount'', str ''content''],
      Inr [str ''2025/02/01'', str ''2000'', str ''February Salary''],
      Inr [str ''2025/03/01'', str ''3000'', str ''March Salary'']] 2025 1 = (NilSlice, None) \<and>
   ParseWithPeriodFilter Background
     [Inr [str ''date'', str ''amount'', str ''content''],
      Inr [str ''2025/02/01'', str ''2000'', str ''February Salary''],
      Inr [str ''2025/03/01'', str ''3000'', str ''March Salary'']] 2025 1 \<noteq> (Slice [], None)"
  by (simp add: ParseWithPeriodFilter_def ParseWithFilter_def Background_def decode_defs)

text \<open>
  C8, amended. When the header is accepted, every row decodes, the context is never done
  and no record satisfies the predicate, \<open>ParseWithFilter\<close> returns the \<open>nil\<close> slice
  (of length zero) and a \<open>nil\<close> error; every failure returns the \<open>nil\<close> slice as well, with
  an error, so the error alone tells the empty result from a failure.
\<close>

theorem no_match_returns_nil_slice_and_nil_error:
  assumes "streamingValidateHeader header = None"
    and "map streamingParseRecord rows = map Inr ts"
    and "\<forall>k \<le> length rows. ctx k = None"
    and "filter f ts = []"
  shows "ParseWithFilter ctx (Inr header # map Inr rows) f = (NilSlice, None) \<and>
         (\<forall>ctx' r f'. snd (ParseWithFilter ctx' r f') \<noteq> None \<longrightarrow>
            fst (ParseWithFilter ctx' r f') = NilSlice)"
proof -
  have polls: "\<forall>j < length rows. ctx (2 + j - 2) = None" using assms(3) by simp
  have last: "ctx (length rows) = None" using assms(3) by simp
  have "rowLoop ctx f (map Inr rows @ []) NilSlice 2 =
      rowLoop ctx f [] (appendAll NilSlice (filter f ts)) (2 + length rows)"
    using assms(2) polls by (rule rowLoop_prefix)
  then have "rowLoop ctx f (map Inr rows) NilSlice 2 = (NilSlice, None)"
    using last assms(4) by simp
  then have "ParseWithFilter ctx (Inr header # map Inr rows) f = (NilSlice, None)"
    by (simp add: ParseWithFilter_header_ok [OF assms(1)])
  then show ?thesis using ParseWithFilter_error_nil by blast
qed

theorem no_match_returns_nil_slice_and_nil_error_witness:
  "ParseWithFilter Background
     [Inr [str ''date'', str ''amount'', str ''content''],
      Inr [str ''2025/01/09'', str ''-300'', str ''Grocery'']] IsIncome = (NilSlice, None)"
proof -
  have h: "streamingValidateHeader [str ''date'', str ''amount'', str ''content''] = None"
    by (simp add: decode_defs)
  have d: "map streamingParseRecord [[str ''2025/01/09'', str ''-300'', str ''Grocery'']] =
      map Inr [\<lparr>Date = \<lparr>Year = 2025, Month = 1, Day = 9, Clock = 0\<rparr>, Amount = - 300,
                 Content = str ''Grocery''\<rparr>]"
    by (simp add: decode_defs)
  have c: "\<forall>k \<le> length [[str ''2025/01/09'', str ''-300'', str ''Grocery'']].
      Background k = None"
    by (simp add: Background_def)
  have n: "filter IsIncome
      [\<lparr>Date = \<lparr>Year = 2025, Month = 1, Day = 9, Clock = 0\<rparr>, Amount = - 300,
         Content = str ''Grocery''\<rparr>] = []"
    by (simp add: IsIncome_def word_sless_alt)
  show ?thesis
    using no_match_returns_nil_slice_and_nil_error [OF h d c n] by simp
qed

subsection \<open>The header\<close>

lemma equalFoldRune_lower:
  assumes "97 \<le> b" and "b \<le> 122" and "b \<noteq> 107" and "b \<noteq> 115"
  shows "equalFoldRune a b \<longleftrightarrow> asciiLower a = b"
  using assms by (auto simp: equalFoldRune_def asciiLower_def Let_def min_def max_def)

lemma EqualFold_lower:
  assumes "\<forall>b \<in> set t. 97 \<le> b \<and> b \<le> 122 \<and> b \<noteq> 107 \<and> b \<noteq> 115"
  shows "EqualFold s t \<longleftrightarrow> map asciiLower s = t"
  using assms
proof (induction s t rule: EqualFold.induct)
  case (2 sr s tr t)
  then have "equalFoldRune sr tr \<longleftrightarrow> asciiLower sr = tr"
    by (intro equalFoldRune_lower) simp_all
  with 2 show ?case by simp
qed simp_all

lemma streamingEq_column:
  "streamingEq field streamingColDate \<longleftrightarrow> specFieldIs ''date'' field"
  "streamingEq field streamingColAmount \<longleftrightarrow> specFieldIs ''amount'' field"
  "streamingEq field streamingColContent \<longleftrightarrow> specFieldIs ''content'' field"
proof -
  have t: "TrimSpace (str ''date'') = str ''date''" "TrimSpace (str ''amount'') = str ''amount''"
    "TrimSpace (str ''content'') = str ''content''"
    by (simp_all add: str_def TrimSpace_def IsSpace_def)
  have "\<forall>b \<in> set (str ''date''). 97 \<le> b \<and> b \<le> 122 \<and> b \<noteq> 107 \<and> b \<noteq> 115"
    by (simp add: str_def)
  then show "streamingEq field streamingColDate \<longleftrightarrow> specFieldIs ''date'' field"
    by (simp only: streamingEq_def streamingColDate_def specFieldIs_def t EqualFold_lower)
  have "\<forall>b \<in> set (str ''amount''). 97 \<le> b \<and> b \<le> 122 \<and> b \<noteq> 107 \<and> b \<noteq> 115"
    by (simp add: str_def)
  then show "streamingEq field streamingColAmount \<longleftrightarrow> specFieldIs ''amount'' field"
    by (simp only: streamingEq_def streamingColAmount_def specFieldIs_def t EqualFold_lower)
  have "\<forall>b \<in> set (str ''content''). 97 \<le> b \<and> b \<le> 122 \<and> b \<noteq> 107 \<and> b \<noteq> 115"
    by (simp add: str_def)
  then show "streamingEq field streamingColContent \<longleftrightarrow> specFieldIs ''content'' field"
    by (simp only: streamingEq_def streamingColContent_def specFieldIs_def t EqualFold_lower)
qed

text \<open>
  C5, as the specification states it: a header is rejected unless it has exactly three
  fields. A header of four fields whose first three are the column names is accepted.
\<close>

theorem four_field_header_is_accepted:
  "streamingValidateHeader [str ''date'', str ''amount'', str ''content'', str ''note''] = None \<and>
   ParseWithPeriodFilter Background
     [Inr [str ''date'', str ''amount'', str ''content'', str ''note''],
      Inr [str ''2025/01/01'', str ''1000'', str ''Salary'']] 2025 1 =
   (Slice [\<lparr>Date = \<lparr>Year = 2025, Month = 1, Day = 1, Clock = 0\<rparr>, Amount = 1000,
             Content = str ''Salary''\<rparr>], None)"
  by (simp add: ParseWithPeriodFilter_def ParseWithFilter_def Background_def decode_defs)

text \<open>
  C5, amended. The header is accepted if and only if it has at least three fields and
  its first three are \<open>date\<close>, \<open>amount\<close>, \<open>content\<close> in that order, compared after trimming
  with ASCII letters in either case, a byte-order mark in front of the first field being
  dropped; fields after the third are not looked at. A rejected header makes the parse
  return its error and the \<open>nil\<close> slice whatever the rows and the context are: no row is
  read and the context is not polled.
\<close>

theorem header_accepted_iff_first_three_fields_match:
  "(streamingValidateHeader header = None \<longleftrightarrow>
      3 \<le> length header \<and> specFieldIs ''date'' (TrimPrefix (header ! 0) BOM) \<and>
      specFieldIs ''amount'' (header ! 1) \<and> specFieldIs ''content'' (header ! 2)) \<and>
   (\<forall>e ctx rows f. streamingValidateHeader header = Some e \<longrightarrow>
      ParseWithFilter ctx (Inr header # rows) f = (NilSlice, Some e))"
proof -
  have 1: "streamingValidateHeader header = None \<longleftrightarrow>
      3 \<le> length header \<and> specFieldIs ''date'' (TrimPrefix (header ! 0) BOM) \<and>
      specFieldIs ''amount'' (header ! 1) \<and> specFieldIs ''content'' (header ! 2)"
  proof (cases "length header < 3")
    case True
    then show ?thesis by (simp add: streamingValidateHeader_def)
  next
    case False
    then have "header[0 := TrimPrefix (header ! 0) BOM] ! 0 = TrimPrefix (header ! 0) BOM"
      by (cases header) simp_all
    with False show ?thesis
      by (auto simp: streamingValidateHeader_def Let_def streamingEq_column)
  qed
  have 2: "\<forall>e ctx rows f. streamingValidateHeader header = Some e \<longrightarrow>
      ParseWithFilter ctx (Inr header # rows) f = (NilSlice, Some e)"
    by (simp add: ParseWithFilter_def)
  from 1 2 show ?thesis by blast
qed

theorem header_accepted_iff_first_three_fields_match_witness:
  "ParseWithFilter Background
     [Inr [str ''date'', str ''amount''], Inr [str ''2025/01/01'', str ''1000'']] IsIncome =
   (NilSlice, Some (Errorf ''invalid header: expected 3 columns, got %d'' [ArgInt 2] None))"
proof -
  have "streamingValidateHeader [str ''date'', str ''amount''] =
      Some (Errorf ''invalid header: expected 3 columns, got %d'' [ArgInt 2] None)"
    by (simp add: streamingValidateHeader_def)
  with header_accepted_iff_first_three_fields_match [of "[str ''date'', str ''amount'']"]
  show ?thesis by blast
qed

subsection \<open>Where the returned records come from\<close>

lemma rowLoop_elems_decoded:
  "t \<in> set (elems (fst (rowLoop ctx f r acc n))) \<Longrightarrow>
     t \<in> set (elems acc) \<or> (\<exists>record. Inr record \<in> set r \<and> streamingParseRecord record = Inr t)"
proof (induction ctx f r acc n rule: rowLoop.induct)
  case (1 ctx f acc n)
  then show ?case by (simp split: option.splits)
next
  case (2 ctx f readErr r acc n)
  then show ?case by (simp split: option.splits)
next
  case (3 ctx f row r acc n)
  show ?case
  proof (cases "ctx (n - 2)")
    case (Some e)
    with 3 show ?thesis by simp
  next
    case None
    show ?thesis
    proof (cases "streamingParseRecord row")
      case (Inl err)
      with None 3 show ?thesis by simp
    next
      case (Inr u)
      from "3.prems" None Inr
      have "t \<in> set (elems (fst (rowLoop ctx f r
              (if f u then append_slice acc u else acc) (n + 1))))"
        by simp
      from "3.IH" [OF None Inr this]
      show ?thesis using Inr by (auto split: if_splits)
    qed
  qed
qed

lemma ParseWithFilter_elems_decoded:
  assumes "t \<in> set (elems (fst (ParseWithFilter ctx r f)))"
  shows "\<exists>record. streamingParseRecord record = Inr t"
proof (cases r rule: Read.cases)
  case 1
  with assms show ?thesis by (simp add: ParseWithFilter_def)
next
  case (2 readErr r')
  with assms show ?thesis by (simp add: ParseWithFilter_def)
next
  case (3 header r')
  show ?thesis
  proof (cases "streamingValidateHeader header")
    case None
    with assms 3 have "t \<in> set (elems (fst (rowLoop ctx f r' NilSlice 2)))"
      by (simp add: ParseWithFilter_def)
    from rowLoop_elems_decoded [OF this] show ?thesis by auto
  next
    case (Some e)
    with assms 3 show ?thesis by (simp add: ParseWithFilter_def)
  qed
qed

subsection \<open>Sorting newest first\<close>

lemma After_key: "After t u \<longleftrightarrow> timeKey u < timeKey t"
  by (simp add: After_def timeKey_def less_prod_def' eq_commute [of "Year t"] eq_commute [of "Month t"] eq_commute [of "Day t"])

lemma timeKey_inj: "timeKey t = timeKey u \<longleftrightarrow> t = (u :: Time)"
  by (cases t; cases u) (simp add: timeKey_def)

lemma After_irrefl: "\<not> After t t"
  by (simp add: After_key)

lemma After_asym: "After t u \<Longrightarrow> \<not> After u t"
  by (simp add: After_key)

lemma not_After_trans: "\<not> After u t \<Longrightarrow> \<not> After v u \<Longrightarrow> \<not> After v t"
  by (simp add: After_key not_less)

lemma not_After_iff: "\<not> After u t \<longleftrightarrow> t = u \<or> After t (u :: Time)"
  by (auto simp: After_key not_less le_less timeKey_inj)

lemma mset_insertStable: "mset (insertStable l x ys) = add_mset x (mset ys)"
  by (induction ys) simp_all

lemma mset_SliceStable: "mset (SliceStable l xs) = mset xs"
  by (induction xs) (simp_all add: mset_insertStable)

lemma set_insertStable: "set (insertStable l x ys) = insert x (set ys)"
  by (induction ys) auto

lemma sorted_insertStable:
  assumes asym: "\<And>a b. l a b \<Longrightarrow> \<not> l b a"
    and trans: "\<And>a b c. \<not> l b a \<Longrightarrow> \<not> l c b \<Longrightarrow> \<not> l c a"
    and "sorted_wrt (\<lambda>a b. \<not> l b a) ys"
  shows "sorted_wrt (\<lambda>a b. \<not> l b a) (insertStable l x ys)"
  using assms(3)
proof (induction ys)
  case Nil
  then show ?case by simp
next
  case (Cons y ys)
  from Cons.prems have tail: "sorted_wrt (\<lambda>a b. \<not> l b a) ys"
    and head: "\<forall>z \<in> set ys. \<not> l z y" by simp_all
  show ?case
  proof (cases "l y x")
    case True
    then have "\<not> l x y" by (rule asym)
    with head have "\<forall>z \<in> set (insertStable l x ys). \<not> l z y"
      by (simp add: set_insertStable)
    with True Cons.IH [OF tail] show ?thesis by simp
  next
    case False
    have "\<forall>z \<in> set ys. \<not> l z x"
    proof
      fix z assume "z \<in> set ys"
      with head have "\<not> l z y" by blast
      with False show "\<not> l z x" by (rule trans)
    qed
    with False Cons.prems show ?thesis by simp
  qed
qed

lemma sorted_SliceStable:
  assumes "\<And>a b. l a b \<Longrightarrow> \<not> l b a"
    and "\<And>a b c. \<not> l b a \<Longrightarrow> \<not> l c b \<Longrightarrow> \<not> l c a"
  shows "sorted_wrt (\<lambda>a b. \<not> l b a) (SliceStable l xs)"
proof (induction xs)
  case Nil
  then show ?case by simp
next
  case (Cons x xs)
  have "sorted_wrt (\<lambda>a b. \<not> l b a) (insertStable l x (SliceStable l xs))"
    using assms Cons.IH by (rule sorted_insertStable)
  then show ?case by simp
qed

lemma filter_insertStable:
  assumes "\<And>a b. l a b \<Longrightarrow> k a \<noteq> k b"
  shows "filter (\<lambda>t. k t = d) (insertStable l x ys) = filter (\<lambda>t. k t = d) (x # ys)"
proof (induction ys)
  case Nil
  then show ?case by simp
next
  case (Cons y ys)
  have "l y x \<Longrightarrow> k y \<noteq> k x" by (rule assms)
  with Cons show ?case by auto
qed

lemma filter_SliceStable:
  assumes "\<And>a b. l a b \<Longrightarrow> k a \<noteq> k b"
  shows "filter (\<lambda>t. k t = d) (SliceStable l xs) = filter (\<lambda>t. k t = d) xs"
proof (induction xs)
  case Nil
  then show ?case by simp
next
  case (Cons x xs)
  have "filter (\<lambda>t. k t = d) (insertStable l x (SliceStable l xs)) =
      filter (\<lambda>t. k t = d) (x # SliceStable l xs)"
    using assms by (rule filter_insertStable)
  with Cons.IH show ?case by simp
qed

lemma elems_sortNewestFirst:
  "elems (sortNewestFirst ts) = SliceStable (\<lambda>a b. After (Date a) (Date b)) (elems ts)"
  by (cases ts) (simp_all add: sortNewestFirst_def)


lemma GetTransactionsByPeriodOptimized_sorts:
  assumes "ValidatePeriod year month = None" and "source ctx csvFileURI = Inr r"
    and "ParseWithPeriodFilter ctx r year month = (filtered, None)"
  shows "GetTransactionsByPeriodOptimized source ctx csvFileURI year month =
           (sortNewestFirst filtered, None)"
  using assms by (simp add: GetTransactionsByPeriodOptimized_def)

lemma sortNewestFirst_properties:
  "sorted_wrt (\<lambda>a b. Date a = Date b \<or> After (Date a) (Date b)) (elems (sortNewestFirst ts))
   \<and> (\<forall>d. filter (\<lambda>t. Date t = d) (elems (sortNewestFirst ts)) =
            filter (\<lambda>t. Date t = d) (elems ts))
   \<and> mset (elems (sortNewestFirst ts)) = mset (elems ts)"
proof -
  let ?l = "\<lambda>a b. After (Date a) (Date b)"
  have "sorted_wrt (\<lambda>a b. \<not> ?l b a) (SliceStable ?l (elems ts))"
  proof (rule sorted_SliceStable)
    show "After (Date a) (Date b) \<Longrightarrow> \<not> After (Date b) (Date a)" for a b :: Transaction
      by (rule After_asym)
    show "\<not> After (Date b) (Date a) \<Longrightarrow> \<not> After (Date c) (Date b) \<Longrightarrow>
        \<not> After (Date c) (Date a)" for a b c :: Transaction
      by (rule not_After_trans)
  qed
  then have 1: "sorted_wrt (\<lambda>a b. Date a = Date b \<or> After (Date a) (Date b))
      (elems (sortNewestFirst ts))"
    by (simp add: elems_sortNewestFirst not_After_iff)
  have 2: "filter (\<lambda>t. Date t = d) (elems (sortNewestFirst ts)) =
      filter (\<lambda>t. Date t = d) (elems ts)" for d
    unfolding elems_sortNewestFirst
    by (rule filter_SliceStable) (auto simp: After_irrefl)
  have 3: "mset (elems (sortNewestFirst ts)) = mset (elems ts)"
    by (simp add: elems_sortNewestFirst mset_SliceStable)
  from 1 2 3 show ?thesis by blast
qed

lemma GenerateMonthly_sorts:
  assumes "source ctx csvFileURI = Inr r" and "parse ctx r = (allTransactions, None)"
  shows "GenerateMonthly source parse writer ctx periodDisplay year month csvFileURI =
           ([\<lparr>Period = periodDisplay,
              TotalIncome = fst (snd (filterForMonth allTransactions year month)),
              TotalExpenditure = snd (snd (filterForMonth allTransactions year month)),
              Transactions =
                toDTOs (sortNewestFirst (fst (filterForMonth allTransactions year month)))\<rparr>],
            writer \<lparr>Period = periodDisplay,
              TotalIncome = fst (snd (filterForMonth allTransactions year month)),
              TotalExpenditure = snd (snd (filterForMonth allTransactions year month)),
              Transactions =
                toDTOs (sortNewestFirst (fst (filterForMonth allTransactions year month)))\<rparr>)"
  using assms
  by (cases "filterForMonth allTransactions year month")
     (simp add: GenerateMonthly_def Let_def)

text \<open>
  C3. When the period is valid, the source opens and the parse succeeds,
  \<open>GetTransactionsByPeriodOptimized\<close> returns the filtered list sorted by date descending:
  every element's date is equal to or after the date of each later element, the
  transactions of any one date are in the order the filtered list has them, and the
  output is a permutation of the filtered list. \<open>GenerateMonthly\<close> hands to the writer a
  statement whose transactions are the projections, in order, of the list
  \<open>filterForMonth\<close> keeps, sorted in the same way.
\<close>

theorem services_return_kept_transactions_newest_first:
  "(\<forall>r filtered.
      ValidatePeriod year month = None \<longrightarrow> source ctx csvFileURI = Inr r \<longrightarrow>
      ParseWithPeriodFilter ctx r year month = (filtered, None) \<longrightarrow>
      (\<exists>sorted.
         GetTransactionsByPeriodOptimized source ctx csvFileURI year month = (sorted, None) \<and>
         sorted_wrt (\<lambda>a b. Date a = Date b \<or> After (Date a) (Date b)) (elems sorted) \<and>
         (\<forall>d. filter (\<lambda>t. Date t = d) (elems sorted) =
               filter (\<lambda>t. Date t = d) (elems filtered)) \<and>
         mset (elems sorted) = mset (elems filtered))) \<and>
   (\<forall>r allTransactions.
      source ctx csvFileURI = Inr r \<longrightarrow> parse ctx r = (allTransactions, None) \<longrightarrow>
      (\<exists>sorted statement.
         GenerateMonthly source parse writer ctx periodDisplay year month csvFileURI =
           ([statement], writer statement) \<and>
         Transactions statement = toDTOs sorted \<and>
         sorted_wrt (\<lambda>a b. Date a = Date b \<or> After (Date a) (Date b)) (elems sorted) \<and>
         (\<forall>d. filter (\<lambda>t. Date t = d) (elems sorted) =
               filter (\<lambda>t. Date t = d) (elems (fst (filterForMonth allTransactions year month)))) \<and>
         mset (elems sorted) = mset (elems (fst (filterForMonth allTransactions year month)))))"
proof (intro conjI allI impI)
  fix r filtered
  assume "ValidatePeriod year month = None" and "source ctx csvFileURI = Inr r"
    and "ParseWithPeriodFilter ctx r year month = (filtered, None)"
  then have "GetTransactionsByPeriodOptimized source ctx csvFileURI year month =
      (sortNewestFirst filtered, None)"
    by (rule GetTransactionsByPeriodOptimized_sorts)
  with sortNewestFirst_properties [of filtered]
  show "\<exists>sorted.
      GetTransactionsByPeriodOptimized source ctx csvFileURI year month = (sorted, None) \<and>
      sorted_wrt (\<lambda>a b. Date a = Date b \<or> After (Date a) (Date b)) (elems sorted) \<and>
      (\<forall>d. filter (\<lambda>t. Date t = d) (elems sorted) =
            filter (\<lambda>t. Date t = d) (elems filtered)) \<and>
      mset (elems sorted) = mset (elems filtered)"
    by blast
next
  fix r allTransactions
  assume "source ctx csvFileURI = Inr r" and "parse ctx r = (allTransactions, None)"
  then have gen: "GenerateMonthly source parse writer ctx periodDisplay year month csvFileURI =
           ([\<lparr>Period = periodDisplay,
              TotalIncome = fst (snd (filterForMonth allTransactions year month)),
              TotalExpenditure = snd (snd (filterForMonth allTransactions year month)),
              Transactions =
                toDTOs (sortNewestFirst (fst (filterForMonth allTransactions year month)))\<rparr>],
            writer \<lparr>Period = periodDisplay,
              TotalIncome = fst (snd (filterForMonth allTransactions year month)),
              TotalExpenditure = snd (snd (filterForMonth allTransactions year month)),
              Transactions =
                toDTOs (sortNewestFirst (fst (filterForMonth allTransactions year month)))\<rparr>)"
    by (rule GenerateMonthly_sorts)
  let ?kept = "fst (filterForMonth allTransactions year month)"
  let ?statement = "\<lparr>Period = periodDisplay,
      TotalIncome = fst (snd (filterForMonth allTransactions year month)),
      TotalExpenditure = snd (snd (filterForMonth allTransactions year month)),
      Transactions = toDTOs (sortNewestFirst ?kept)\<rparr>"
  have "GenerateMonthly source parse writer ctx periodDisplay year month csvFileURI =
      ([?statement], writer ?statement) \<and>
    Transactions ?statement = toDTOs (sortNewestFirst ?kept) \<and>
    sorted_wrt (\<lambda>a b. Date a = Date b \<or> After (Date a) (Date b))
      (elems (sortNewestFirst ?kept)) \<and>
    (\<forall>d. filter (\<lambda>t. Date t = d) (elems (sortNewestFirst ?kept)) =
          filter (\<lambda>t. Date t = d) (elems ?kept)) \<and>
    mset (elems (sortNewestFirst ?kept)) = mset (elems ?kept)"
    using gen sortNewestFirst_properties [of ?kept] by simp
  then show "\<exists>sorted statement.
      GenerateMonthly source parse writer ctx periodDisplay year month csvFileURI =
        ([statement], writer statement) \<and>
      Transactions statement = toDTOs sorted \<and>
      sorted_wrt (\<lambda>a b. Date a = Date b \<or> After (Date a) (Date b)) (elems sorted) \<and>
      (\<forall>d. filter (\<lambda>t. Date t = d) (elems sorted) =
            filter (\<lambda>t. Date t = d) (elems (fst (filterForMonth allTransactions year month)))) \<and>
      mset (elems sorted) = mset (elems (fst (filterForMonth allTransactions year month)))"
    by blast
qed

theorem services_return_kept_transactions_newest_first_witness:
  "GetTransactionsByPeriodOptimized
     (mockSource [Inr [str ''date'', str ''amount'', str ''content''],
                  Inr [str ''2025/01/05'', str ''2000'', str ''First''],
                  Inr [str ''2025/01/09'', str ''-300'', str ''Later''],
                  Inr [str ''2025/02/01'', str ''999'', str ''Next Month''],
                  Inr [str ''2025/01/05'', str ''100'', str ''Second'']] None)
     Background (str ''transactions.csv'') 2025 1 =
     (Slice [\<lparr>Date = \<lparr>Year = 2025, Month = 1, Day = 9, Clock = 0\<rparr>, Amount = - 300,
               Content = str ''Later''\<rparr>,
             \<lparr>Date = \<lparr>Year = 2025, Month = 1, Day = 5, Clock = 0\<rparr>, Amount = 2000,
               Content = str ''First''\<rparr>,
             \<lparr>Date = \<lparr>Year = 2025, Month = 1, Day = 5, Clock = 0\<rparr>, Amount = 100,
               Content = str ''Second''\<rparr>], None) \<and>
   map dtoContent (elems (Transactions (hd (fst (GenerateMonthly (mockSource [] None)
     (mockParser (Slice
        [\<lparr>Date = \<lparr>Year = 2025, Month = 1, Day = 5, Clock = 0\<rparr>, Amount = 2000,
           Content = str ''First''\<rparr>,
         \<lparr>Date = \<lparr>Year = 2025, Month = 1, Day = 9, Clock = 0\<rparr>, Amount = - 300,
           Content = str ''Later''\<rparr>,
         \<lparr>Date = \<lparr>Year = 2025, Month = 2, Day = 1, Clock = 0\<rparr>, Amount = 999,
           Content = str ''Next Month''\<rparr>,
         \<lparr>Date = \<lparr>Year = 2025, Month = 1, Day = 5, Clock = 0\<rparr>, Amount = 100,
           Content = str ''Second''\<rparr>]) None)
     (mockWriter None) Background (str ''2025/01'') 2025 1 (str ''transactions.csv'')))))) =
     [str ''Later'', str ''First'', str ''Second'']"
proof -
  let ?r = "[Inr [str ''date'', str ''amount'', str ''content''],
             Inr [str ''2025/01/05'', str ''2000'', str ''First''],
             Inr [str ''2025/01/09'', str ''-300'', str ''Later''],
             Inr [str ''2025/02/01'', str ''999'', str ''Next Month''],
             Inr [str ''2025/01/05'', str ''100'', str ''Second'']]"
  let ?first = "\<lparr>Date = \<lparr>Year = 2025, Month = 1, Day = 5, Clock = 0\<rparr>, Amount = 2000,
                  Content = str ''First''\<rparr>"
  let ?later = "\<lparr>Date = \<lparr>Year = 2025, Month = 1, Day = 9, Clock = 0\<rparr>, Amount = - 300,
                  Content = str ''Later''\<rparr>"
  let ?next = "\<lparr>Date = \<lparr>Year = 2025, Month = 2, Day = 1, Clock = 0\<rparr>, Amount = 999,
                 Content = str ''Next Month''\<rparr>"
  let ?second = "\<lparr>Date = \<lparr>Year = 2025, Month = 1, Day = 5, Clock = 0\<rparr>, Amount = 100,
                   Content = str ''Second''\<rparr>"
  let ?all = "Slice [?first, ?later, ?next, ?second]"
  note services = services_return_kept_transactions_newest_first
    [where year = 2025 and month = 1 and ctx = Background
       and csvFileURI = "str ''transactions.csv''"]
  have v: "ValidatePeriod 2025 1 = None" by (simp add: ValidatePeriod_def)
  have o: "mockSource ?r None Background (str ''transactions.csv'') = Inr ?r"
    by (simp add: mockSource_def)
  have p: "ParseWithPeriodFilter Background ?r 2025 1 = (Slice [?first, ?later, ?second], None)"
    by (simp add: ParseWithPeriodFilter_def ParseWithFilter_def Background_def decode_defs)
  from services [where source = "mockSource ?r None"] v o p
  obtain sorted where res: "GetTransactionsByPeriodOptimized (mockSource ?r None) Background
        (str ''transactions.csv'') 2025 1 = (sorted, None)"
    and srt: "sorted_wrt (\<lambda>a b. Date a = Date b \<or> After (Date a) (Date b)) (elems sorted)"
    and stb: "\<forall>d. filter (\<lambda>t. Date t = d) (elems sorted) =
                  filter (\<lambda>t. Date t = d) (elems (Slice [?first, ?later, ?second]))"
    and prm: "mset (elems sorted) = mset (elems (Slice [?first, ?later, ?second]))"
    by blast
  have a: "GetTransactionsByPeriodOptimized (mockSource ?r None) Background
        (str ''transactions.csv'') 2025 1 = (Slice [?later, ?first, ?second], None)"
    using res p v o
    by (simp add: GetTransactionsByPeriodOptimized_def sortNewestFirst_def After_def)
  have o2: "mockSource [] None Background (str ''transactions.csv'') = Inr []"
    by (simp add: mockSource_def)
  have p2: "mockParser ?all None Background [] = (?all, None)"
    by (simp add: mockParser_def)
  from services [where source = "mockSource [] None" and parse = "mockParser ?all None"
      and writer = "mockWriter None" and periodDisplay = "str ''2025/01''"] o2 p2
  obtain sorted2 statement where
    gen: "GenerateMonthly (mockSource [] None) (mockParser ?all None) (mockWriter None)
        Background (str ''2025/01'') 2025 1 (str ''transactions.csv'') =
        ([statement], mockWriter None statement)"
    and tr: "Transactions statement = toDTOs sorted2"
    by blast
  have b: "map dtoContent (elems (Transactions (hd (fst (GenerateMonthly (mockSource [] None)
        (mockParser ?all None) (mockWriter None) Background (str ''2025/01'') 2025 1
        (str ''transactions.csv'')))))) = [str ''Later'', str ''First'', str ''Second'']"
    by (simp add: GenerateMonthly_def mockSource_def mockParser_def filterForMonth_def
        sortNewestFirst_def toDTOs_def After_def Let_def word_sless_alt comp_def)
  from a b show ?thesis by blast
qed

subsection \<open>The content of a transaction\<close>

lemma set_sortNewestFirst: "set (elems (sortNewestFirst ts)) = set (elems ts)"
proof -
  have "mset (elems (sortNewestFirst ts)) = mset (elems ts)"
    by (simp add: elems_sortNewestFirst mset_SliceStable)
  then show ?thesis by (rule mset_eq_setD)
qed

text \<open>
  C9. \<open>NewTransaction\<close> fails exactly when the content is empty once trimmed, that is
  when it is empty or consists of white space only, whoever calls it; a transaction it
  returns carries the trimmed content, which is not empty and on which trimming changes
  nothing. Every transaction that the parser returns and the sort reorders is a value
  \<open>NewTransaction\<close> returned, unchanged, so it has that property.
\<close>

theorem constructed_content_is_trimmed_and_never_empty:
  "(case NewTransaction date amount content of
      Inl e \<Rightarrow> TrimSpace content = []
    | Inr t \<Rightarrow> TrimSpace content \<noteq> [] \<and>
        t = \<lparr>Date = date, Amount = amount, Content = TrimSpace content\<rparr> \<and>
        Content t \<noteq> [] \<and> TrimSpace (Content t) = Content t) \<and>
   (TrimSpace content = [] \<longleftrightarrow> (\<forall>r \<in> set content. IsSpace r)) \<and>
   (\<forall>t \<in> set (elems (sortNewestFirst (fst (ParseWithFilter ctx r f)))).
      Content t \<noteq> [] \<and> TrimSpace (Content t) = Content t \<and>
      (\<exists>date amount content. NewTransaction date amount content = Inr t))"
proof -
  have 1: "case NewTransaction date amount content of
      Inl e \<Rightarrow> TrimSpace content = []
    | Inr t \<Rightarrow> TrimSpace content \<noteq> [] \<and>
        t = \<lparr>Date = date, Amount = amount, Content = TrimSpace content\<rparr> \<and>
        Content t \<noteq> [] \<and> TrimSpace (Content t) = Content t"
    by (simp add: NewTransaction_cases TrimSpace_idem)
  have 2: "TrimSpace content = [] \<longleftrightarrow> (\<forall>r \<in> set content. IsSpace r)"
    by (rule TrimSpace_empty_iff)
  have 3: "\<forall>t \<in> set (elems (sortNewestFirst (fst (ParseWithFilter ctx r f)))).
      Content t \<noteq> [] \<and> TrimSpace (Content t) = Content t \<and>
      (\<exists>date amount content. NewTransaction date amount content = Inr t)"
  proof
    fix t assume "t \<in> set (elems (sortNewestFirst (fst (ParseWithFilter ctx r f))))"
    then have "t \<in> set (elems (fst (ParseWithFilter ctx r f)))"
      by (simp only: set_sortNewestFirst)
    then obtain row where "streamingParseRecord row = Inr t"
      using ParseWithFilter_elems_decoded by blast
    then obtain d a where new: "NewTransaction d a (TrimSpace (row ! 2)) = Inr t"
      using streamingParseRecord_Inr by blast
    from NewTransaction_trimmed [OF new] new
    show "Content t \<noteq> [] \<and> TrimSpace (Content t) = Content t \<and>
      (\<exists>date amount content. NewTransaction date amount content = Inr t)"
      by blast
  qed
  from 1 2 3 show ?thesis by blast
qed

theorem constructed_content_is_trimmed_and_never_empty_witness:
  "NewTransaction \<lparr>Year = 2025, Month = 1, Day = 5, Clock = 0\<rparr> 2000 (str ''  Salary '') =
     Inr \<lparr>Date = \<lparr>Year = 2025, Month = 1, Day = 5, Clock = 0\<rparr>, Amount = 2000,
          Content = str ''Salary''\<rparr> \<and>
   TrimSpace (str ''   '') = [] \<and>
   Content (hd (elems (sortNewestFirst (fst (ParseWithFilter Background
      [Inr [str ''date'', str ''amount'', str ''content''],
       Inr [str ''2025/01/05'', str ''2000'', str '' Salary '']] IsIncome))))) \<noteq> []"
proof -
  let ?out = "elems (sortNewestFirst (fst (ParseWithFilter Background
      [Inr [str ''date'', str ''amount'', str ''content''],
       Inr [str ''2025/01/05'', str ''2000'', str '' Salary '']] IsIncome)))"
  have out: "?out = [\<lparr>Date = \<lparr>Year = 2025, Month = 1, Day = 5, Clock = 0\<rparr>, Amount = 2000,
          Content = str ''Salary''\<rparr>]"
    by (simp add: ParseWithFilter_def Background_def sortNewestFirst_def IsIncome_def
        word_sless_alt decode_defs)
  then have mem: "hd ?out \<in> set ?out" by simp
  have sp: "\<forall>r \<in> set (str ''   ''). IsSpace r" by (simp add: str_def IsSpace_def)
  have new: "NewTransaction \<lparr>Year = 2025, Month = 1, Day = 5, Clock = 0\<rparr> 2000 (str ''  Salary '') =
     Inr \<lparr>Date = \<lparr>Year = 2025, Month = 1, Day = 5, Clock = 0\<rparr>, Amount = 2000,
          Content = str ''Salary''\<rparr>"
    by (simp add: decode_defs)
  from constructed_content_is_trimmed_and_never_empty
    [where content = "str ''   ''" and ctx = Background and f = IsIncome and
       r = "[Inr [str ''date'', str ''amount'', str ''content''],
             Inr [str ''2025/01/05'', str ''2000'', str '' Salary '']]"]
  have "TrimSpace (str ''   '') = []" and "Content (hd ?out) \<noteq> []"
    using sp mem by blast+
  with new show ?thesis by blast
qed

subsection \<open>The date range\<close>

lemma Equal_iff: "Equal t u \<longleftrightarrow> t = (u :: Time)"
  by (cases t; cases u) (simp add: Equal_def)

lemma notAfterDay_trans: "notAfterDay t u \<Longrightarrow> notAfterDay u v \<Longrightarrow> notAfterDay t v"
  by (auto simp: notAfterDay_def)

lemma Between_empty_range:
  "\<not> notAfterDay startDate endDate \<Longrightarrow> \<not> Between date startDate endDate"
  unfolding Between_def using notAfterDay_trans by blast

lemma betweenLoop_appendAll:
  "betweenLoop startDate endDate ts acc =
     appendAll acc (filter (\<lambda>t. Between (Date t) startDate endDate) ts)"
  by (induction ts arbitrary: acc) simp_all

text \<open>
  The filter that selects with \<open>util.Between\<close>, as the specification describes that
  function: a transaction is kept if and only if its day is not before the day of
  \<open>start\<close> and not after the day of \<open>end\<close>, whatever times of day the three values
  carry, and nothing is kept, without error, when the day of \<open>start\<close> is after the day
  of \<open>end\<close>.
\<close>

lemma ParseWithDateRangeFilter_keeps_days_in_range:
  assumes "streamingValidateHeader header = None"
    and "map streamingParseRecord rows = map Inr ts"
    and "\<forall>k \<le> length rows. ctx k = None"
  shows "snd (ParseWithDateRangeFilter ctx (Inr header # map Inr rows) startDate endDate) = None"
    and "elems (fst (ParseWithDateRangeFilter ctx (Inr header # map Inr rows) startDate endDate)) =
           filter (\<lambda>t. notAfterDay startDate (Date t) \<and> notAfterDay (Date t) endDate) ts"
    and "\<not> notAfterDay startDate endDate \<Longrightarrow>
           ParseWithDateRangeFilter ctx (Inr header # map Inr rows) startDate endDate =
             (NilSlice, None)"
proof -
  let ?f = "\<lambda>t. Between (Date t) startDate endDate"
  have polls: "\<forall>j < length rows. ctx (2 + j - 2) = None" using assms(3) by simp
  have last: "ctx (length rows) = None" using assms(3) by simp
  have "rowLoop ctx ?f (map Inr rows @ []) NilSlice 2 =
      rowLoop ctx ?f [] (appendAll NilSlice (filter ?f ts)) (2 + length rows)"
    using assms(2) polls by (rule rowLoop_prefix)
  then have "rowLoop ctx ?f (map Inr rows) NilSlice 2 = (appendAll NilSlice (filter ?f ts), None)"
    using last by simp
  then have res: "ParseWithDateRangeFilter ctx (Inr header # map Inr rows) startDate endDate =
      (appendAll NilSlice (filter ?f ts), None)"
    by (simp add: ParseWithDateRangeFilter_def ParseWithFilter_header_ok [OF assms(1)])
  show "snd (ParseWithDateRangeFilter ctx (Inr header # map Inr rows) startDate endDate) = None"
    by (simp add: res)
  show "elems (fst (ParseWithDateRangeFilter ctx (Inr header # map Inr rows) startDate endDate)) =
      filter (\<lambda>t. notAfterDay startDate (Date t) \<and> notAfterDay (Date t) endDate) ts"
    by (simp add: res Between_def)
  show "ParseWithDateRangeFilter ctx (Inr header # map Inr rows) startDate endDate =
      (NilSlice, None)" if "\<not> notAfterDay startDate endDate"
  proof -
    from that have "filter ?f ts = []"
      by (simp add: Between_empty_range filter_empty_conv)
    with res show ?thesis by simp
  qed
qed

lemma TransactionServiceImpl_GetTransactionsByDateRange_keeps_days_in_range:
  assumes "GetAllTransactions source parser ctx csvFileURI = (allTransactions, None)"
  shows "\<exists>kept.
      TransactionServiceImpl_GetTransactionsByDateRange source parser ctx csvFileURI
        startDate endDate = (kept, None) \<and>
      mset (elems kept) =
        mset (filter (\<lambda>t. notAfterDay startDate (Date t) \<and> notAfterDay (Date t) endDate)
                (elems allTransactions)) \<and>
      (\<not> notAfterDay startDate endDate \<longrightarrow> kept = NilSlice)"
proof -
  let ?sel = "filter (\<lambda>t. Between (Date t) startDate endDate) (elems allTransactions)"
  let ?kept = "sortNewestFirst (appendAll NilSlice ?sel)"
  have res: "TransactionServiceImpl_GetTransactionsByDateRange source parser ctx csvFileURI
      startDate endDate = (?kept, None)"
    by (simp add: TransactionServiceImpl_GetTransactionsByDateRange_def assms
        betweenLoop_appendAll)
  have sel: "mset (elems ?kept) =
      mset (filter (\<lambda>t. notAfterDay startDate (Date t) \<and> notAfterDay (Date t) endDate)
              (elems allTransactions))"
    by (simp add: elems_sortNewestFirst mset_SliceStable Between_def)
  have empty: "?kept = NilSlice" if "\<not> notAfterDay startDate endDate"
  proof -
    from that have "?sel = []"
      by (simp add: Between_empty_range filter_empty_conv)
    then show ?thesis by (simp add: sortNewestFirst_def)
  qed
  from res sel empty show ?thesis by blast
qed

text \<open>
  The comparison written out in \<open>TransactionService.GetTransactionsByDateRange\<close> is on
  instants. It selects the same transactions as the comparison of days when \<open>start\<close> and
  the dates of the transactions carry no time of day, as every date decoded from a row
  does (\<open>streamingParseRecord_midnight\<close>).
\<close>

lemma inDateRange_instants:
  "inDateRange startDate endDate t \<longleftrightarrow>
     \<not> After startDate (Date t) \<and> \<not> After (Date t) endDate"
  by (auto simp: inDateRange_def Before_def Equal_iff not_After_iff After_irrefl)

lemma dateRangeLoop_appendAll:
  "dateRangeLoop startDate endDate ts acc =
     appendAll acc (filter (inDateRange startDate endDate) ts)"
  by (induction ts arbitrary: acc) simp_all

lemma not_After_day_start:
  "Clock s = 0 \<Longrightarrow> \<not> After s d \<longleftrightarrow> notAfterDay s d"
  by (auto simp: After_def notAfterDay_def)

lemma not_After_day_end:
  "Clock d = 0 \<Longrightarrow> \<not> After d e \<longleftrightarrow> notAfterDay d e"
  by (auto simp: After_def notAfterDay_def)

lemma inDateRange_is_Between_without_time_of_day:
  "Clock startDate = 0 \<Longrightarrow> Clock (Date t) = 0 \<Longrightarrow>
     inDateRange startDate endDate t \<longleftrightarrow> Between (Date t) startDate endDate"
  by (simp add: inDateRange_instants Between_def not_After_day_start not_After_day_end)

lemma TransactionService_GetTransactionsByDateRange_compares_instants:
  assumes "GetAllTransactions source parser ctx csvFileURI = (allTransactions, None)"
  shows "\<exists>kept.
      TransactionService_GetTransactionsByDateRange source parser ctx csvFileURI
        startDate endDate = (kept, None) \<and>
      mset (elems kept) =
        mset (filter (\<lambda>t. \<not> After startDate (Date t) \<and> \<not> After (Date t) endDate)
                (elems allTransactions))"
proof -
  let ?sel = "filter (inDateRange startDate endDate) (elems allTransactions)"
  let ?kept = "sortNewestFirst (appendAll NilSlice ?sel)"
  have res: "TransactionService_GetTransactionsByDateRange source parser ctx csvFileURI
      startDate endDate = (?kept, None)"
    by (simp add: TransactionService_GetTransactionsByDateRange_def assms
        dateRangeLoop_appendAll)
  have "mset (elems ?kept) = mset ?sel"
    by (simp add: elems_sortNewestFirst mset_SliceStable)
  then have "mset (elems ?kept) =
      mset (filter (\<lambda>t. \<not> After startDate (Date t) \<and> \<not> After (Date t) endDate)
              (elems allTransactions))"
    by (simp add: inDateRange_instants [abs_def])
  with res show ?thesis by blast
qed

text \<open>
  With a start of 1 January 2025 at 10:00 and an end of 31 January 2025, the service that
  selects with \<open>util.Between\<close> keeps a transaction of 1 January 2025.
\<close>

lemma Between_keeps_the_day_of_a_start_with_a_time_of_day:
  "TransactionServiceImpl_GetTransactionsByDateRange (mockSource [] None)
     (mockParser (Slice [\<lparr>Date = \<lparr>Year = 2025, Month = 1, Day = 1, Clock = 0\<rparr>,
                            Amount = 1000, Content = str ''New Year''\<rparr>]) None)
     Background (str ''transactions.csv'')
     \<lparr>Year = 2025, Month = 1, Day = 1, Clock = 36000000000000\<rparr>
     \<lparr>Year = 2025, Month = 1, Day = 31, Clock = 0\<rparr> =
   (Slice [\<lparr>Date = \<lparr>Year = 2025, Month = 1, Day = 1, Clock = 0\<rparr>,
             Amount = 1000, Content = str ''New Year''\<rparr>], None)"
  by (simp add: TransactionServiceImpl_GetTransactionsByDateRange_def GetAllTransactions_def
      mockSource_def mockParser_def Between_def notAfterDay_def sortNewestFirst_def)

text \<open>
  C7. The date-range filter is to keep a transaction if and only if
  \<open>start \<le> date \<le> end\<close> at day granularity, both ends included. The copy of the filter
  written out in \<open>TransactionService.GetTransactionsByDateRange\<close> does not: with a start
  of 1 January 2025 at 10:00 and an end of 31 January 2025, a transaction of
  1 January 2025, whose day is the day of the start and before the day of the end, is
  dropped, and the service returns the \<open>nil\<close> slice without error.
\<close>

theorem date_range_excludes_start_day_when_start_has_a_time_of_day:
  "notAfterDay \<lparr>Year = 2025, Month = 1, Day = 1, Clock = 36000000000000\<rparr>
      (Date \<lparr>Date = \<lparr>Year = 2025, Month = 1, Day = 1, Clock = 0\<rparr>, Amount = 1000,
              Content = str ''New Year''\<rparr>) \<and>
   notAfterDay
      (Date \<lparr>Date = \<lparr>Year = 2025, Month = 1, Day = 1, Clock = 0\<rparr>, Amount = 1000,
              Content = str ''New Year''\<rparr>)
      \<lparr>Year = 2025, Month = 1, Day = 31, Clock = 0\<rparr> \<and>
   TransactionService_GetTransactionsByDateRange (mockSource [] None)
     (mockParser (Slice [\<lparr>Date = \<lparr>Year = 2025, Month = 1, Day = 1, Clock = 0\<rparr>,
                            Amount = 1000, Content = str ''New Year''\<rparr>]) None)
     Background (str ''transactions.csv'')
     \<lparr>Year = 2025, Month = 1, Day = 1, Clock = 36000000000000\<rparr>
     \<lparr>Year = 2025, Month = 1, Day = 31, Clock = 0\<rparr> = (NilSlice, None)"
  by (simp add: notAfterDay_def TransactionService_GetTransactionsByDateRange_def
      GetAllTransactions_def mockSource_def mockParser_def inDateRange_def Equal_def After_def
      Before_def sortNewestFirst_def)

subsection \<open>Errors at the boundary of the optimized service\<close>

text \<open>
  C10. When the period is valid and the source opens, every error of the streaming parse,
  a cancellation like a malformed row, comes back from
  \<open>GetTransactionsByPeriodOptimized\<close> as a \<open>DomainError\<close> of type \<open>parse\<close> with the message
  \<open>failed to parse CSV\<close> and the error as its cause; the result is an error of type \<open>io\<close>
  exactly when the period is valid and the source fails to open.
\<close>

theorem parse_failures_are_parse_kind_open_failures_io_kind:
  "(\<forall>r e. ValidatePeriod year month = None \<longrightarrow> source ctx csvFileURI = Inr r \<longrightarrow>
       snd (ParseWithPeriodFilter ctx r year month) = Some e \<longrightarrow>
       GetTransactionsByPeriodOptimized source ctx csvFileURI year month =
         (NilSlice, Some (DomainError ErrorTypeParse (Lit ''failed to parse CSV'') [] (Some e))) \<and>
       IsParseError (snd (GetTransactionsByPeriodOptimized source ctx csvFileURI year month))) \<and>
   (IsIOError (snd (GetTransactionsByPeriodOptimized source ctx csvFileURI year month)) \<longleftrightarrow>
      ValidatePeriod year month = None \<and> (\<exists>e. source ctx csvFileURI = Inl e))"
proof -
  have 1: "GetTransactionsByPeriodOptimized source ctx csvFileURI year month =
         (NilSlice, Some (DomainError ErrorTypeParse (Lit ''failed to parse CSV'') [] (Some e))) \<and>
       IsParseError (snd (GetTransactionsByPeriodOptimized source ctx csvFileURI year month))"
    if "ValidatePeriod year month = None" and "source ctx csvFileURI = Inr r"
      and "snd (ParseWithPeriodFilter ctx r year month) = Some e" for r e
    using that
    by (cases "ParseWithPeriodFilter ctx r year month")
       (simp add: GetTransactionsByPeriodOptimized_def NewParseError_def)
  have 2: "IsIOError (snd (GetTransactionsByPeriodOptimized source ctx csvFileURI year month)) \<longleftrightarrow>
      ValidatePeriod year month = None \<and> (\<exists>e. source ctx csvFileURI = Inl e)"
  proof (cases "ValidatePeriod year month")
    case (Some err)
    then have "err = NewValidationError (Lit ''invalid month'') [(''month'', ArgInt month)]"
      by (simp add: ValidatePeriod_def split: if_splits)
    with Some show ?thesis
      by (simp add: GetTransactionsByPeriodOptimized_def NewValidationError_def)
  next
    case None
    show ?thesis
    proof (cases "source ctx csvFileURI")
      case (Inl e)
      with None show ?thesis
        by (simp add: GetTransactionsByPeriodOptimized_def NewIOError_def)
    next
      case (Inr r)
      obtain ts err where p: "ParseWithPeriodFilter ctx r year month = (ts, err)"
        by (cases "ParseWithPeriodFilter ctx r year month")
      with None Inr show ?thesis
        by (cases err) (simp_all add: GetTransactionsByPeriodOptimized_def NewParseError_def)
    qed
  qed
  from 1 2 show ?thesis by blast
qed

theorem parse_failures_are_parse_kind_open_failures_io_kind_witness:
  "GetTransactionsByPeriodOptimized
     (mockSource [Inr [str ''date'', str ''amount'', str ''content''],
                  Inr [str ''2025/01/01'', str ''1000'', str ''Test1'']] None)
     (CancelledFrom 1) (str ''transactions.csv'') 2025 1 =
     (NilSlice, Some (DomainError ErrorTypeParse (Lit ''failed to parse CSV'') [] (Some Canceled))) \<and>
   IsIOError (snd (GetTransactionsByPeriodOptimized
     (mockSource [] (Some (OtherError ''no such file''))) Background
     (str ''transactions.csv'') 2025 1))"
proof -
  let ?r = "[Inr [str ''date'', str ''amount'', str ''content''],
             Inr [str ''2025/01/01'', str ''1000'', str ''Test1'']]"
  have v: "ValidatePeriod 2025 1 = None" by (simp add: ValidatePeriod_def)
  have s: "mockSource ?r None (CancelledFrom 1) (str ''transactions.csv'') = Inr ?r"
    by (simp add: mockSource_def)
  have p: "snd (ParseWithPeriodFilter (CancelledFrom 1) ?r 2025 1) = Some Canceled"
    by (simp add: ParseWithPeriodFilter_def ParseWithFilter_def CancelledFrom_def decode_defs)
  have o: "\<exists>e. mockSource [] (Some (OtherError ''no such file'')) Background
      (str ''transactions.csv'') = Inl e"
    by (simp add: mockSource_def)
  from parse_failures_are_parse_kind_open_failures_io_kind
    [where year = 2025 and month = 1 and source = "mockSource ?r None"
       and ctx = "CancelledFrom 1" and csvFileURI = "str ''transactions.csv''"] v s p
  have a: "GetTransactionsByPeriodOptimized (mockSource ?r None) (CancelledFrom 1)
     (str ''transactions.csv'') 2025 1 =
     (NilSlice, Some (DomainError ErrorTypeParse (Lit ''failed to parse CSV'') [] (Some Canceled)))"
    by blast
  from parse_failures_are_parse_kind_open_failures_io_kind
    [where year = 2025 and month = 1
       and source = "mockSource [] (Some (OtherError ''no such file''))"
       and ctx = Background and csvFileURI = "str ''transactions.csv''"] v o
  have b: "IsIOError (snd (GetTransactionsByPeriodOptimized
     (mockSource [] (Some (OtherError ''no such file''))) Background
     (str ''transactions.csv'') 2025 1))"
    by blast
  from a b show ?thesis by blast
qed

end
